theory Spec2Isabelle
  imports Complex_Main "HOL-Library.Sublist"
begin

section \<open>Audio data, errors and external collaborators\<close>

text \<open>
  A mono audio tensor is the list of its samples; \<open>shape[0]\<close> is its length. Samples are
  modelled as real numbers (the source computes in 32-bit floating point; rounding is not
  modelled). Python exceptions are values of \<open>error\<close>.
\<close>

type_synonym audio = "real list"

datatype error =
    RuntimeError
  | IndexError
  | ZeroDivisionError
  | AttributeError
  | ValueError string
  | TypeError string

text \<open>\<open>torch.cat\<close> of an empty list of tensors raises.\<close>

definition torch_cat :: "audio list \<Rightarrow> error + audio" where
  "torch_cat chunks = (if chunks = [] then Inl RuntimeError else Inr (concat chunks))"

text \<open>\<open>sum(chunk.shape[0] for chunk in buf)\<close>\<close>

definition total_samples :: "audio list \<Rightarrow> int" where
  "total_samples buf = sum_list (map (\<lambda>chunk. int (length chunk)) buf)"

text \<open>\<open>audio_chunk.abs().max()\<close>: the reduction raises on a tensor without elements.\<close>

fun abs_max :: "audio \<Rightarrow> error + real" where
  "abs_max [] = Inl RuntimeError"
| "abs_max (x # xs) = Inr (fold (\<lambda>y m. max \<bar>y\<bar> m) xs \<bar>x\<bar>)"

text \<open>
  The three accepted forms of an incoming chunk. A list becomes an array, an array becomes
  a float tensor; the sample values stay the same.
\<close>

datatype chunk_input = PyList audio | NdArray audio | Tensor audio

fun to_tensor :: "chunk_input \<Rightarrow> audio" where
  "to_tensor (PyList xs) = xs"
| "to_tensor (NdArray xs) = xs"
| "to_tensor (Tensor xs) = xs"

text \<open>
  The dictionary built for every recognition result; its key \<open>text\<close> is the field
  \<open>result_text\<close>. The three time fields hold what \<open>format_time\<close> returns;
  \<open>format_time\<close> lives in \<open>gigaam.utils\<close>, outside the files at hand, so its result
  type is the type parameter \<open>'t\<close>.
\<close>

record 't result =
  result_text :: string
  start_time :: 't
  end_time :: 't
  duration :: 't
  is_final :: bool

text \<open>
  What the session consumes from outside: the recognizer (\<open>_recognize_audio\<close>, which runs
  the feature extractor, encoder and decoder), \<open>format_time\<close> of \<open>gigaam.utils\<close>, the
  conversion of a window of audio to an in-memory WAV stream at a frame rate
  (\<open>wav_export\<close>, false when the conversion or the export raises), and the VAD pipeline,
  which for a window either fails (\<open>None\<close>) or returns the supported timeline as
  segments \<open>(start, end, score)\<close>, the score being optional.
\<close>

record 't env =
  recognize :: "audio \<Rightarrow> string"
  format_time :: "real \<Rightarrow> 't"
  wav_export :: "audio \<Rightarrow> int \<Rightarrow> bool"
  vad :: "audio \<Rightarrow> (real \<times> real \<times> real option) list option"

section \<open>The session object\<close>

text \<open>
  The fields of \<open>AudioStream\<close>. \<open>callback\<close> is \<open>None\<close> when no callback was given, and
  otherwise holds the results the callback has been called with, oldest first.
  \<open>vad_calls\<close> records the windows handed to the VAD pipeline, oldest first.
\<close>

record 't session =
  sample_rate :: int
  chunk_size :: int
  max_buffer_samples :: int
  threshold :: real
  min_silence_samples :: int
  stabilization_frames :: int
  vad_threshold :: real
  use_vad :: bool
  audio_buffer :: "audio list"
  is_speaking :: bool
  silence_counter :: int
  speaking_buffer :: "audio list"
  last_end_time :: real
  vad_buffer :: "audio list"
  vad_buffer_size :: int
  transcription_buffer :: "string list"
  interim_results :: "'t result list"
  final_results :: "'t result list"
  callback :: "'t result list option"
  running :: bool
  vad_calls :: "audio list"

text \<open>Python's \<open>int(x)\<close> on a float truncates towards zero.\<close>

definition py_int :: "real \<Rightarrow> int" where
  "py_int x = (if 0 \<le> x then \<lfloor>x\<rfloor> else \<lceil>x\<rceil>)"

text \<open>
  \<open>__init__\<close>. \<open>vad_ready\<close> says whether the VAD import succeeded, the credential is in the
  environment and the pipeline could be loaded; otherwise VAD is switched off.
\<close>

definition init :: "int \<Rightarrow> int \<Rightarrow> int \<Rightarrow> real \<Rightarrow> real \<Rightarrow> int \<Rightarrow> bool \<Rightarrow> real \<Rightarrow> bool \<Rightarrow> bool
    \<Rightarrow> 't session" where
  "init sr cs buffer_size thr min_silence_duration sf want_vad vad_thr has_callback vad_ready =
     \<lparr> sample_rate = sr,
       chunk_size = cs,
       max_buffer_samples = buffer_size * sr,
       threshold = thr,
       min_silence_samples = py_int (min_silence_duration * real_of_int sr),
       stabilization_frames = sf,
       vad_threshold = vad_thr,
       use_vad = (want_vad \<and> vad_ready),
       audio_buffer = [],
       is_speaking = False,
       silence_counter = 0,
       speaking_buffer = [],
       last_end_time = 0,
       vad_buffer = [],
       vad_buffer_size = 3 * sr,
       transcription_buffer = [],
       interim_results = [],
       final_results = [],
       callback = (if has_callback then Some [] else None),
       running = True,
       vad_calls = [] \<rparr>"

text \<open>The session built with every default argument and no callback.\<close>

definition default_session :: "'t session" where
  "default_session = init 16000 4000 30 (1/100) (8/10) 5 True (1/2) False True"

section \<open>Ring-buffered ingestor\<close>

text \<open>
  The eviction loop of \<open>add_audio_chunk\<close>:
  \<open>while total_samples > max_buffer_samples: removed = audio_buffer.pop(0); ...\<close>.
  \<open>pop(0)\<close> on an empty list raises \<open>IndexError\<close>.
\<close>

fun evict :: "int \<Rightarrow> int \<Rightarrow> audio list \<Rightarrow> error + audio list" where
  "evict cap tot [] = (if tot > cap then Inl IndexError else Inr [])"
| "evict cap tot (removed # rest) =
     (if tot > cap then evict cap (tot - int (length removed)) rest
      else Inr (removed # rest))"

text \<open>The amplitude normalisation at the head of \<open>add_audio_chunk\<close>.\<close>

definition normalize :: "audio \<Rightarrow> error + audio" where
  "normalize chunk =
     (case abs_max chunk of
        Inl e \<Rightarrow> Inl e
      | Inr peak \<Rightarrow> Inr (if peak > 1 then map (\<lambda>x. x / peak) chunk else chunk))"

definition add_audio_chunk :: "chunk_input \<Rightarrow> 't session \<Rightarrow> error + 't session" where
  "add_audio_chunk audio_chunk s =
     (case normalize (to_tensor audio_chunk) of
        Inl e \<Rightarrow> Inl e
      | Inr chunk \<Rightarrow>
          (let buf = audio_buffer s @ [chunk] in
           case evict (max_buffer_samples s) (total_samples buf) buf of
             Inl e \<Rightarrow> Inl e
           | Inr buf' \<Rightarrow> Inr (s\<lparr>audio_buffer := buf'\<rparr>)))"

text \<open>
  The head of one iteration of the worker loop, run under the buffer lock: nothing is taken
  from an empty buffer (the loop sleeps and polls again); otherwise the whole buffer is
  concatenated and replaced by the empty list.
\<close>

definition drain_all :: "'t session \<Rightarrow> audio option \<times> 't session" where
  "drain_all s =
     (if audio_buffer s = [] then (None, s)
      else (Some (concat (audio_buffer s)), s\<lparr>audio_buffer := []\<rparr>))"

section \<open>Speech activity detection\<close>

text \<open>
  \<open>_detect_speech_energy\<close>: mean of the squared samples against the threshold. The mean
  of a tensor without elements is not a number, and every comparison with it is false.
\<close>

definition detect_speech_energy :: "'t session \<Rightarrow> audio \<Rightarrow> bool" where
  "detect_speech_energy s audio =
     (audio \<noteq> [] \<and> sum_list (map (\<lambda>x. x ^ 2) audio) / real (length audio) > threshold s)"

text \<open>Python's slice \<open>xs[i:]\<close>, where a negative \<open>i\<close> counts from the end.\<close>

definition slice_from :: "int \<Rightarrow> 'a list \<Rightarrow> 'a list" where
  "slice_from i xs = (if i < 0 then drop (nat (int (length xs) + i)) xs else drop (nat i) xs)"

text \<open>
  The scan of the timeline in \<open>_detect_speech_vad\<close>: the first segment that ends after
  \<open>limit\<close> decides, by its score (1.0 when the segment has none).
\<close>

fun last_part_speech :: "real \<Rightarrow> real \<Rightarrow> (real \<times> real \<times> real option) list \<Rightarrow> bool" where
  "last_part_speech limit thr [] = False"
| "last_part_speech limit thr ((seg_start, seg_end, score) # rest) =
     (if seg_end > limit
      then (case score of None \<Rightarrow> 1 | Some p \<Rightarrow> p) > thr
      else last_part_speech limit thr rest)"

text \<open>
  \<open>_detect_speech_vad\<close>. Everything inside the \<open>try\<close> block that raises falls back to the
  energy detector: the conversion and export of the window, before the pipeline is
  called; the pipeline; the division by a zero sample rate inside the scan.
\<close>

definition detect_speech_vad :: "'t env \<Rightarrow> audio \<Rightarrow> 't session \<Rightarrow> bool \<times> 't session" where
  "detect_speech_vad e audio s =
     (if \<not> use_vad s then (detect_speech_energy s audio, s)
      else
        let s1 = s\<lparr>vad_buffer := vad_buffer s @ [audio]\<rparr>;
            vad_audio_length = total_samples (vad_buffer s1)
        in if vad_audio_length < vad_buffer_size s1 then (False, s1)
           else
             let joined = concat (vad_buffer s1);
                 trim = int (length joined) > vad_buffer_size s1;
                 vad_audio = (if trim then slice_from (- vad_buffer_size s1) joined else joined);
                 s2 = (if trim then s1\<lparr>vad_buffer := [vad_audio]\<rparr> else s1)
             in if \<not> wav_export e vad_audio (sample_rate s2)
                then (detect_speech_energy s2 audio, s2)
                else
                  let s3 = s2\<lparr>vad_calls := vad_calls s2 @ [vad_audio]\<rparr>
                  in case vad e vad_audio of
                       None \<Rightarrow> (detect_speech_energy s3 audio, s3)
                     | Some timeline \<Rightarrow>
                         if timeline \<noteq> [] \<and> sample_rate s3 = 0
                         then (detect_speech_energy s3 audio, s3)
                         else (last_part_speech
                                 (real (length vad_audio) / real_of_int (sample_rate s3) - 1/2)
                                 (vad_threshold s3) timeline, s3))"

text \<open>\<open>_detect_speech\<close>: the first statement returns; the rest of the body is never run.\<close>

definition detect_speech :: "audio \<Rightarrow> bool" where
  "detect_speech audio = True"

section \<open>Segmentation state machine\<close>

text \<open>
  The result dictionary of \<open>_finalize_speech_segment\<close> and \<open>_perform_interim_recognition\<close>.
  \<open>now\<close> is the reading of \<open>time.time()\<close>. The recognizer runs first; the division by the
  sample rate raises when the rate is zero.
\<close>

definition make_result :: "'t env \<Rightarrow> 't session \<Rightarrow> real \<Rightarrow> audio \<Rightarrow> bool \<Rightarrow> error + 't result" where
  "make_result e s now speech_segment fin =
     (if sample_rate s = 0 then Inl ZeroDivisionError
      else
        let d = real (length speech_segment) / real_of_int (sample_rate s)
        in Inr \<lparr> result_text = recognize e speech_segment,
                 start_time = format_time e (now - d),
                 end_time = format_time e now,
                 duration = format_time e d,
                 is_final = fin \<rparr>)"

definition deliver :: "'t result \<Rightarrow> 't result list option \<Rightarrow> 't result list option" where
  "deliver r cb = (case cb of None \<Rightarrow> None | Some seen \<Rightarrow> Some (seen @ [r]))"

definition finalize_speech_segment :: "'t env \<Rightarrow> real \<Rightarrow> 't session \<Rightarrow> error + 't session" where
  "finalize_speech_segment e now s =
     (case torch_cat (speaking_buffer s) of
        Inl err \<Rightarrow> Inl err
      | Inr speech_segment \<Rightarrow>
          (case make_result e s now speech_segment True of
             Inl err \<Rightarrow> Inl err
           | Inr r \<Rightarrow>
               Inr (s\<lparr> final_results := final_results s @ [r],
                        callback := deliver r (callback s),
                        is_speaking := False,
                        silence_counter := 0,
                        speaking_buffer := [],
                        last_end_time := now,
                        vad_buffer := [] \<rparr>)))"

definition perform_interim_recognition :: "'t env \<Rightarrow> real \<Rightarrow> 't session \<Rightarrow> error + 't session" where
  "perform_interim_recognition e now s =
     (case torch_cat (speaking_buffer s) of
        Inl err \<Rightarrow> Inl err
      | Inr speech_segment \<Rightarrow>
          (case make_result e s now speech_segment False of
             Inl err \<Rightarrow> Inl err
           | Inr r \<Rightarrow>
               Inr (s\<lparr> interim_results := interim_results s @ [r],
                        callback := deliver r (callback s) \<rparr>)))"

text \<open>
  The body of the sub-chunk loop of \<open>_process_stream\<close> after the classification
  \<open>is_speech\<close> has been computed. \<open>%\<close> by zero raises.
\<close>

definition handle_subchunk :: "'t env \<Rightarrow> bool \<Rightarrow> real \<Rightarrow> audio \<Rightarrow> 't session \<Rightarrow> error + 't session" where
  "handle_subchunk e is_speech now subchunk s =
     (if is_speech then
        let s1 = (if \<not> is_speaking s
                  then s\<lparr>is_speaking := True, speaking_buffer := [subchunk]\<rparr>
                  else s\<lparr>speaking_buffer := speaking_buffer s @ [subchunk]\<rparr>);
            s2 = s1\<lparr>silence_counter := 0\<rparr>
        in if stabilization_frames s2 = 0 then Inl ZeroDivisionError
           else if int (length (speaking_buffer s2)) mod stabilization_frames s2 = 0
           then perform_interim_recognition e now s2
           else Inr s2
      else if is_speaking s then
        let s1 = s\<lparr> speaking_buffer := speaking_buffer s @ [subchunk],
                    silence_counter := silence_counter s + int (length subchunk) \<rparr>
        in if silence_counter s1 \<ge> min_silence_samples s1
           then finalize_speech_segment e now s1
           else Inr s1
      else Inr s)"

text \<open>
  The sub-chunk loop over \<open>(now, subchunk)\<close> pairs, \<open>now\<close> being what \<open>time.time()\<close> reads
  while that sub-chunk is handled. The loop stops when \<open>running\<close> is off and an exception
  ends it. The detector is a parameter; the source calls \<open>_detect_speech\<close>.
\<close>

fun process_subchunks ::
  "(audio \<Rightarrow> bool) \<Rightarrow> 't env \<Rightarrow> (real \<times> audio) list \<Rightarrow> 't session \<Rightarrow> error + 't session" where
  "process_subchunks det e [] s = Inr s"
| "process_subchunks det e ((now, subchunk) # rest) s =
     (if \<not> running s then Inr s
      else case handle_subchunk e (det subchunk) now subchunk s of
             Inl err \<Rightarrow> Inl err
           | Inr s' \<Rightarrow> process_subchunks det e rest s')"

text \<open>
  The slices \<open>audio_chunk[i : min(i + chunk_size, n)]\<close> for \<open>i\<close> in
  \<open>range(0, n, chunk_size)\<close>. A zero step raises; a negative step gives no iteration.
\<close>

definition subchunks :: "int \<Rightarrow> audio \<Rightarrow> error + audio list" where
  "subchunks cs audio_chunk =
     (if cs = 0 then Inl (ValueError ''range() arg 3 must not be zero'')
      else if cs < 0 then Inr []
      else
        let n = nat cs
        in Inr (map (\<lambda>k. take n (drop (k * n) audio_chunk))
                  [0 ..< (length audio_chunk + n - 1) div n]))"

text \<open>
  One iteration of \<open>while self.running\<close> in \<open>_process_stream\<close>: drain under the lock, then
  handle the sub-chunks. \<open>clock k\<close> is the time read while sub-chunk \<open>k\<close> is handled.
\<close>

definition process_stream_iteration :: "'t env \<Rightarrow> (nat \<Rightarrow> real) \<Rightarrow> 't session \<Rightarrow> error + 't session" where
  "process_stream_iteration e clock s =
     (if \<not> running s then Inr s
      else case drain_all s of
             (None, s') \<Rightarrow> Inr s'
           | (Some audio_chunk, s') \<Rightarrow>
               (case subchunks (chunk_size s') audio_chunk of
                  Inl err \<Rightarrow> Inl err
                | Inr subs \<Rightarrow>
                    process_subchunks detect_speech e
                      (zip (map clock [0 ..< length subs]) subs) s'))"

definition stop :: "'t session \<Rightarrow> 't session" where
  "stop s = s\<lparr>running := False\<rparr>"

section \<open>Offline segmenter\<close>

text \<open>
  The tensor handed to \<open>segment_audio\<close>: its samples, the size in bytes of one element
  of its dtype, its device and whether it requires a gradient.
\<close>

record tensor =
  tensor_samples :: audio
  dtype_itemsize :: nat
  tensor_device :: string
  requires_grad :: bool

text \<open>
  What \<open>vad_utils\<close> consumes from outside. \<open>pipeline_cached\<close> is whether the module-level
  \<open>_PIPELINE\<close> is already set and \<open>hf_token\<close> the environment variable.
  \<open>from_pretrained\<close> is \<open>Pipeline.from_pretrained\<close> with the credential and
  \<open>pipeline_to\<close> is \<open>_PIPELINE.to(device)\<close>, each giving the exception it raises, if any.
  For the clip: \<open>tensor_numpy\<close> is \<open>wav_tensor.numpy().tobytes()\<close>,
  \<open>audio_segment\<close> the construction of the \<open>AudioSegment\<close> at the frame rate with the
  dtype's item size as sample width, and \<open>export_wav\<close> its export as WAV, each giving the
  exception it raises, if any; \<open>audio_ms\<close> is \<open>len(audio)\<close> in milliseconds;
  \<open>run_pipeline\<close> is the VAD pipeline on the exported clip, giving the supported timeline
  as \<open>(start, end)\<close> pairs in seconds; \<open>slice_samples t rate a b\<close> is the array of samples
  of \<open>audio[a:b]\<close>.
\<close>

record world =
  pipeline_cached :: bool
  hf_token :: "string option"
  from_pretrained :: "string \<Rightarrow> error option"
  pipeline_to :: "string \<Rightarrow> error option"
  tensor_numpy :: "tensor \<Rightarrow> error option"
  audio_segment :: "tensor \<Rightarrow> int \<Rightarrow> error option"
  audio_ms :: "tensor \<Rightarrow> int \<Rightarrow> int"
  export_wav :: "tensor \<Rightarrow> int \<Rightarrow> error option"
  run_pipeline :: "tensor \<Rightarrow> error + (real \<times> real) list"
  slice_samples :: "tensor \<Rightarrow> int \<Rightarrow> int \<Rightarrow> int \<Rightarrow> real list"

text \<open>
  \<open>get_pipeline\<close>: the cached pipeline, or a fresh one, which needs the credential,
  moved to the device.
\<close>

definition get_pipeline :: "world \<Rightarrow> string \<Rightarrow> error + world" where
  "get_pipeline w device =
     (if pipeline_cached w then
        (case pipeline_to w device of
           Some err \<Rightarrow> Inl err
         | None \<Rightarrow> Inr w)
      else
        (case hf_token w of
           None \<Rightarrow> Inl (ValueError ''HF_TOKEN environment variable is not set'')
         | Some tok \<Rightarrow>
             (case from_pretrained w tok of
                Some err \<Rightarrow> Inl err
              | None \<Rightarrow>
                  (case pipeline_to w device of
                     Some err \<Rightarrow> Inl err
                   | None \<Rightarrow> Inr (w\<lparr>pipeline_cached := True\<rparr>)))))"

text \<open>\<open>audiosegment_to_tensor\<close> for the single channel \<open>segment_audio\<close> builds.\<close>

definition audiosegment_to_tensor :: "real list \<Rightarrow> audio" where
  "audiosegment_to_tensor samples = map (\<lambda>x. x / 32768) samples"

text \<open>
  The argument of \<open>segment_audio\<close>: a tensor, or some other object, with an attribute
  \<open>shape\<close> (an array) or without one (a list).
\<close>

datatype wav_input = TorchTensor tensor | OtherObject bool

record seg_state =
  curr_start :: real
  curr_end :: real
  curr_duration :: real
  segments :: "audio list"
  boundaries :: "(real \<times> real) list"

text \<open>
  The block that appends the current chunk, guarded by \<open>curr_end > curr_start\<close> and by a
  non-empty tensor. \<open>slice a b\<close> is the sample array of \<open>audio[a:b]\<close>.
\<close>

definition append_chunk :: "(int \<Rightarrow> int \<Rightarrow> real list) \<Rightarrow> seg_state \<Rightarrow> seg_state" where
  "append_chunk slice st =
     (if curr_end st > curr_start st then
        let start_ms = py_int (curr_start st * 1000);
            end_ms = py_int (curr_end st * 1000);
            tensor = audiosegment_to_tensor (slice start_ms end_ms)
        in if length tensor > 0
           then st\<lparr> segments := segments st @ [tensor],
                    boundaries := boundaries st @ [(curr_start st, curr_end st)] \<rparr>
           else st
      else st)"

text \<open>The test that starts a new chunk for the segment \<open>(start, end)\<close>.\<close>

definition starts_new_chunk :: "real \<Rightarrow> real \<Rightarrow> real \<Rightarrow> seg_state \<Rightarrow> real \<Rightarrow> real \<Rightarrow> bool" where
  "starts_new_chunk max_duration min_duration new_chunk_threshold st start end' =
     ((curr_duration st > min_duration \<and> start - curr_end st > new_chunk_threshold)
      \<or> curr_duration st + (end' - curr_end st) > max_duration)"

text \<open>The body of the loop over the timeline; \<open>len_s\<close> is \<open>len(audio) / 1000\<close>.\<close>

definition segment_step ::
  "(int \<Rightarrow> int \<Rightarrow> real list) \<Rightarrow> real \<Rightarrow> real \<Rightarrow> real \<Rightarrow> real \<Rightarrow> seg_state \<Rightarrow> real \<times> real \<Rightarrow> seg_state" where
  "segment_step slice len_s max_duration min_duration new_chunk_threshold st seg =
     (let start = max 0 (fst seg);
          end' = min len_s (snd seg);
          st1 = (if starts_new_chunk max_duration min_duration new_chunk_threshold st start end'
                 then (append_chunk slice st)\<lparr>curr_start := start\<rparr>
                 else st)
      in st1\<lparr>curr_end := end', curr_duration := end' - curr_start st1\<rparr>)"

definition initial_seg_state :: seg_state where
  "initial_seg_state =
     \<lparr>curr_start = 0, curr_end = 0, curr_duration = 0, segments = [], boundaries = []\<rparr>"

text \<open>The loop over the timeline followed by the block for the last chunk.\<close>

definition merge_timeline ::
  "(int \<Rightarrow> int \<Rightarrow> real list) \<Rightarrow> real \<Rightarrow> real \<Rightarrow> real \<Rightarrow> real \<Rightarrow> (real \<times> real) list
     \<Rightarrow> audio list \<times> (real \<times> real) list" where
  "merge_timeline slice len_s max_duration min_duration new_chunk_threshold timeline =
     (let st = foldl (segment_step slice len_s max_duration min_duration new_chunk_threshold)
                 initial_seg_state timeline;
          st' = (if curr_duration st \<noteq> 0 \<and> curr_end st > curr_start st
                 then append_chunk slice st else st)
      in (segments st', boundaries st'))"

text \<open>
  \<open>segment_audio\<close>, statement by statement. The first statement prints
  \<open>wav_tensor.shape\<close>, which raises for an object without that attribute, before the
  type test is reached. Then come the conversion to bytes, the \<open>AudioSegment\<close>, the
  length test, the export, the pipeline and the loop over its timeline. The update of
  the module-level pipeline by \<open>get_pipeline\<close> is not part of the returned value.
\<close>

definition segment_audio ::
  "world \<Rightarrow> wav_input \<Rightarrow> int \<Rightarrow> real \<Rightarrow> real \<Rightarrow> real \<Rightarrow> string
     \<Rightarrow> error + (audio list \<times> (real \<times> real) list)" where
  "segment_audio w wav_tensor rate max_duration min_duration new_chunk_threshold device =
     (case wav_tensor of
        OtherObject has_shape \<Rightarrow>
          (if has_shape then Inl (TypeError ''wav_tensor must be a torch.Tensor'')
           else Inl AttributeError)
      | TorchTensor t \<Rightarrow>
          (case tensor_numpy w t of
             Some err \<Rightarrow> Inl err
           | None \<Rightarrow>
               (case audio_segment w t rate of
                  Some err \<Rightarrow> Inl err
                | None \<Rightarrow>
                    (let len_ms = audio_ms w t rate
                     in if len_ms < 1000
                        then Inl (ValueError ''Audio too short for segmentation'')
                        else
                          (case export_wav w t rate of
                             Some err \<Rightarrow> Inl err
                           | None \<Rightarrow>
                               (case get_pipeline w device of
                                  Inl err \<Rightarrow> Inl err
                                | Inr w' \<Rightarrow>
                                    (case run_pipeline w' t of
                                       Inl err \<Rightarrow> Inl err
                                     | Inr timeline \<Rightarrow>
                                         Inr (merge_timeline (slice_samples w' t rate)
                                                (real_of_int len_ms / 1000)
                                                max_duration min_duration
                                                new_chunk_threshold timeline))))))))"

section \<open>Reset\<close>

definition reset :: "'t session \<Rightarrow> 't session" where
  "reset s = s\<lparr> audio_buffer := [],
               is_speaking := False,
               silence_counter := 0,
               speaking_buffer := [],
               interim_results := [],
               vad_buffer := [] \<rparr>"

section \<open>The two threads and the buffer lock\<close>

text \<open>
  The caller's thread runs \<open>add_audio_chunk\<close>, \<open>reset\<close> and \<open>stop\<close>; the worker thread
  runs \<open>_process_stream\<close>. \<open>buffer_lock\<close> holds the thread inside
  \<open>with self.buffer_lock\<close>, if any. Each thread has a program point, with the values of
  its local variables; a step of the system is one statement of one thread, and
  \<open>step e clock t\<close> is a step of thread \<open>t\<close>.
\<close>

datatype thread = Caller | Worker

text \<open>
  The caller: between calls; in \<open>add_audio_chunk\<close> with the normalised chunk, waiting for
  the lock; inside the lock before the append, before the sum, and at the test of the
  eviction loop with \<open>total_samples\<close>; in \<open>reset\<close> waiting for the lock, inside it before
  and after the assignment to the buffer, and past it before the other assignments.
\<close>

datatype caller_pc =
    C_idle
  | C_add_wait audio
  | C_add_append audio
  | C_add_total
  | C_add_evict int
  | C_reset_wait
  | C_reset_clear
  | C_reset_release
  | C_reset_rest

text \<open>
  The worker: at the head of \<open>while self.running\<close>; inside the lock at the emptiness
  test, before \<open>torch.cat\<close>, before and after the assignment of the empty list (with the
  concatenated \<open>audio_chunk\<close>); outside the lock at the sub-chunk loop; gone, after
  \<open>running\<close> was found off or an exception.
\<close>

datatype worker_pc =
    W_top
  | W_test
  | W_cat
  | W_clear audio
  | W_release audio
  | W_process audio
  | W_exit

record 't system =
  shared :: "'t session"
  buffer_lock :: "thread option"
  cpc :: caller_pc
  wpc :: worker_pc



text \<open>
  The steps. A thread enters \<open>with self.buffer_lock\<close> only when no thread holds the lock,
  and leaving the block, also by an exception, releases it. The worker sleeps inside the
  lock when it finds the buffer empty. The sub-chunk loop and the assignments that end
  \<open>reset\<close> touch neither the buffer nor the lock; each is taken as one step.
\<close>

inductive step ::
  "'t env \<Rightarrow> (nat \<Rightarrow> real) \<Rightarrow> thread \<Rightarrow> 't system \<Rightarrow> 't system \<Rightarrow> bool"
  for e :: "'t env" and clock :: "nat \<Rightarrow> real" where
  call_add:
    "cpc \<sigma> = C_idle \<Longrightarrow> normalize (to_tensor audio_chunk) = Inr chunk \<Longrightarrow>
     step e clock Caller \<sigma> (\<sigma>\<lparr>cpc := C_add_wait chunk\<rparr>)"
| add_acquire:
    "cpc \<sigma> = C_add_wait chunk \<Longrightarrow> buffer_lock \<sigma> = None \<Longrightarrow>
     step e clock Caller \<sigma> (\<sigma>\<lparr>buffer_lock := Some Caller, cpc := C_add_append chunk\<rparr>)"
| add_append:
    "cpc \<sigma> = C_add_append chunk \<Longrightarrow>
     step e clock Caller \<sigma>
       (\<sigma>\<lparr>shared := (shared \<sigma>)\<lparr>audio_buffer := audio_buffer (shared \<sigma>) @ [chunk]\<rparr>,
          cpc := C_add_total\<rparr>)"
| add_total:
    "cpc \<sigma> = C_add_total \<Longrightarrow>
     step e clock Caller \<sigma> (\<sigma>\<lparr>cpc := C_add_evict (total_samples (audio_buffer (shared \<sigma>)))\<rparr>)"
| add_pop:
    "cpc \<sigma> = C_add_evict tot \<Longrightarrow> tot > max_buffer_samples (shared \<sigma>) \<Longrightarrow>
     audio_buffer (shared \<sigma>) = removed # rest \<Longrightarrow>
     step e clock Caller \<sigma>
       (\<sigma>\<lparr>shared := (shared \<sigma>)\<lparr>audio_buffer := rest\<rparr>,
          cpc := C_add_evict (tot - int (length removed))\<rparr>)"
| add_pop_raises:
    "cpc \<sigma> = C_add_evict tot \<Longrightarrow> tot > max_buffer_samples (shared \<sigma>) \<Longrightarrow>
     audio_buffer (shared \<sigma>) = [] \<Longrightarrow>
     step e clock Caller \<sigma> (\<sigma>\<lparr>buffer_lock := None, cpc := C_idle\<rparr>)"
| add_release:
    "cpc \<sigma> = C_add_evict tot \<Longrightarrow> \<not> tot > max_buffer_samples (shared \<sigma>) \<Longrightarrow>
     step e clock Caller \<sigma> (\<sigma>\<lparr>buffer_lock := None, cpc := C_idle\<rparr>)"
| call_reset:
    "cpc \<sigma> = C_idle \<Longrightarrow> step e clock Caller \<sigma> (\<sigma>\<lparr>cpc := C_reset_wait\<rparr>)"
| reset_acquire:
    "cpc \<sigma> = C_reset_wait \<Longrightarrow> buffer_lock \<sigma> = None \<Longrightarrow>
     step e clock Caller \<sigma> (\<sigma>\<lparr>buffer_lock := Some Caller, cpc := C_reset_clear\<rparr>)"
| reset_clear:
    "cpc \<sigma> = C_reset_clear \<Longrightarrow>
     step e clock Caller \<sigma>
       (\<sigma>\<lparr>shared := (shared \<sigma>)\<lparr>audio_buffer := []\<rparr>, cpc := C_reset_release\<rparr>)"
| reset_release:
    "cpc \<sigma> = C_reset_release \<Longrightarrow>
     step e clock Caller \<sigma> (\<sigma>\<lparr>buffer_lock := None, cpc := C_reset_rest\<rparr>)"
| reset_rest:
    "cpc \<sigma> = C_reset_rest \<Longrightarrow>
     step e clock Caller \<sigma>
       (\<sigma>\<lparr>shared := (shared \<sigma>)\<lparr> is_speaking := False, silence_counter := 0,
                                    speaking_buffer := [], interim_results := [],
                                    vad_buffer := [] \<rparr>,
          cpc := C_idle\<rparr>)"
| call_stop:
    "cpc \<sigma> = C_idle \<Longrightarrow> step e clock Caller \<sigma> (\<sigma>\<lparr>shared := stop (shared \<sigma>)\<rparr>)"
| work_exit:
    "wpc \<sigma> = W_top \<Longrightarrow> \<not> running (shared \<sigma>) \<Longrightarrow>
     step e clock Worker \<sigma> (\<sigma>\<lparr>wpc := W_exit\<rparr>)"
| work_acquire:
    "wpc \<sigma> = W_top \<Longrightarrow> running (shared \<sigma>) \<Longrightarrow> buffer_lock \<sigma> = None \<Longrightarrow>
     step e clock Worker \<sigma> (\<sigma>\<lparr>buffer_lock := Some Worker, wpc := W_test\<rparr>)"
| work_empty:
    "wpc \<sigma> = W_test \<Longrightarrow> audio_buffer (shared \<sigma>) = [] \<Longrightarrow>
     step e clock Worker \<sigma> (\<sigma>\<lparr>buffer_lock := None, wpc := W_top\<rparr>)"
| work_nonempty:
    "wpc \<sigma> = W_test \<Longrightarrow> audio_buffer (shared \<sigma>) \<noteq> [] \<Longrightarrow>
     step e clock Worker \<sigma> (\<sigma>\<lparr>wpc := W_cat\<rparr>)"
| work_cat:
    "wpc \<sigma> = W_cat \<Longrightarrow> torch_cat (audio_buffer (shared \<sigma>)) = Inr audio_chunk \<Longrightarrow>
     step e clock Worker \<sigma> (\<sigma>\<lparr>wpc := W_clear audio_chunk\<rparr>)"
| work_cat_raises:
    "wpc \<sigma> = W_cat \<Longrightarrow> torch_cat (audio_buffer (shared \<sigma>)) = Inl err \<Longrightarrow>
     step e clock Worker \<sigma> (\<sigma>\<lparr>buffer_lock := None, wpc := W_exit\<rparr>)"
| work_clear:
    "wpc \<sigma> = W_clear audio_chunk \<Longrightarrow>
     step e clock Worker \<sigma>
       (\<sigma>\<lparr>shared := (shared \<sigma>)\<lparr>audio_buffer := []\<rparr>, wpc := W_release audio_chunk\<rparr>)"
| work_release:
    "wpc \<sigma> = W_release audio_chunk \<Longrightarrow>
     step e clock Worker \<sigma> (\<sigma>\<lparr>buffer_lock := None, wpc := W_process audio_chunk\<rparr>)"
| work_process:
    "wpc \<sigma> = W_process audio_chunk \<Longrightarrow>
     subchunks (chunk_size (shared \<sigma>)) audio_chunk = Inr subs \<Longrightarrow>
     process_subchunks detect_speech e (zip (map clock [0 ..< length subs]) subs) (shared \<sigma>)
       = Inr s' \<Longrightarrow>
     step e clock Worker \<sigma> (\<sigma>\<lparr>shared := s', wpc := W_top\<rparr>)"
| work_range_raises:
    "wpc \<sigma> = W_process audio_chunk \<Longrightarrow>
     subchunks (chunk_size (shared \<sigma>)) audio_chunk = Inl err \<Longrightarrow>
     step e clock Worker \<sigma> (\<sigma>\<lparr>wpc := W_exit\<rparr>)"
| work_process_raises:
    "wpc \<sigma> = W_process audio_chunk \<Longrightarrow>
     subchunks (chunk_size (shared \<sigma>)) audio_chunk = Inr subs \<Longrightarrow>
     process_subchunks detect_speech e (zip (map clock [0 ..< length subs]) subs) (shared \<sigma>)
       = Inl err \<Longrightarrow>
     step e clock Worker \<sigma> (\<sigma>\<lparr>wpc := W_exit\<rparr>)"

text \<open>
  The states the two threads can reach from a session \<open>s0\<close> with the lock free, the
  caller between calls and the worker at the head of its loop.
\<close>

inductive reachable :: "'t env \<Rightarrow> (nat \<Rightarrow> real) \<Rightarrow> 't session \<Rightarrow> 't system \<Rightarrow> bool"
  for e :: "'t env" and clock :: "nat \<Rightarrow> real" and s0 :: "'t session" where
  start:
    "reachable e clock s0 \<lparr>shared = s0, buffer_lock = None, cpc = C_idle, wpc = W_top\<rparr>"
| after:
    "reachable e clock s0 \<sigma> \<Longrightarrow> step e clock t \<sigma> \<sigma>' \<Longrightarrow> reachable e clock s0 \<sigma>'"


section \<open>Fixtures and proof vocabulary\<close>

text \<open>
  An environment for concrete runs: the recognizer returns the empty text, \<open>format_time\<close>
  leaves the number of seconds as it is, the export of a window succeeds and the VAD
  pipeline always fails.
\<close>

definition probe_env :: "real env" where
  "probe_env = \<lparr> recognize = (\<lambda>audio. ''''), format_time = (\<lambda>seconds. seconds),
                  wav_export = (\<lambda>audio rate. True), vad = (\<lambda>audio. None) \<rparr>"

text \<open>
  A small session: 4 samples per second, sub-chunks of 2 samples, a buffer of 2 seconds
  (8 samples), half a second of silence (2 samples) to close a segment, an interim result
  every 2 sub-chunks.
\<close>

definition small_session :: "real session" where
  "small_session = init 4 2 2 (1/100) (1/2) 2 True (1/2) False True"

text \<open>The configuration fields that no step of the worker loop changes.\<close>

definition same_setup :: "'t session \<Rightarrow> 't session \<Rightarrow> bool" where
  "same_setup s s' \<longleftrightarrow>
     sample_rate s' = sample_rate s \<and> chunk_size s' = chunk_size s \<and>
     min_silence_samples s' = min_silence_samples s \<and>
     stabilization_frames s' = stabilization_frames s \<and> running s' = running s"

text \<open>
  The default configuration at 20 samples per second with sub-chunks of 5 samples: a
  sub-chunk lasts a quarter of a second and 0.8 seconds of silence are 16 samples, with
  the same proportions as 4000-sample sub-chunks at 16000 samples per second.
\<close>

definition slow_session :: "real session" where
  "slow_session = init 20 5 30 (1/100) (8/10) 5 True (1/2) False True"

text \<open>The sub-chunks of the speech run in progress; none when the session is idle.\<close>

definition current_run :: "'t session \<Rightarrow> audio list" where
  "current_run s = (if is_speaking s then speaking_buffer s else [])"

section \<open>The ingestor keeps its cap\<close>

lemma total_samples_Cons: "total_samples (c # buf) = int (length c) + total_samples buf"
  by (simp add: total_samples_def)

lemma total_samples_nonneg: "0 \<le> total_samples buf"
  by (induction buf) (simp_all add: total_samples_def)

lemma total_samples_last: "buf \<noteq> [] \<Longrightarrow> int (length (last buf)) \<le> total_samples buf"
  using total_samples_nonneg by (induction buf) (auto simp: total_samples_Cons)

lemma total_samples_concat: "int (length (concat buf)) = total_samples buf"
  by (induction buf) (auto simp: total_samples_def)

lemma evict_suffix: "evict cap tot buf = Inr buf' \<Longrightarrow> suffix buf' buf"
  by (induction buf arbitrary: tot) (auto split: if_splits intro: suffix_ConsI)

lemma evict_bound: "evict cap (total_samples buf) buf = Inr buf' \<Longrightarrow> total_samples buf' \<le> cap"
  by (induction buf) (auto simp: total_samples_def split: if_splits)

lemma evict_all:
  "0 \<le> cap \<Longrightarrow> buf \<noteq> [] \<Longrightarrow> int (length (last buf)) > cap \<Longrightarrow>
   evict cap (total_samples buf) buf = Inr []"
proof (induction buf)
  case Nil
  then show ?case by simp
next
  case (Cons c buf)
  have big: "total_samples (c # buf) > cap"
    using total_samples_last [of "c # buf"] Cons.prems by simp
  show ?case
  proof (cases "buf = []")
    case True
    with big Cons.prems show ?thesis by (simp add: total_samples_def)
  next
    case False
    with Cons big show ?thesis by (simp add: total_samples_Cons)
  qed
qed

lemma evict_negative_cap:
  "cap < 0 \<Longrightarrow> evict cap (total_samples buf) buf = Inl IndexError"
proof (induction buf)
  case Nil
  then show ?case by (simp add: total_samples_def)
next
  case (Cons c buf)
  have "0 \<le> total_samples (c # buf)" by (rule total_samples_nonneg)
  with Cons show ?case by (simp add: total_samples_Cons)
qed

lemma evict_returns: "0 \<le> cap \<Longrightarrow> \<exists>buf'. evict cap (total_samples buf) buf = Inr buf'"
  by (induction buf) (auto simp: total_samples_def split: if_splits)

lemma abs_max_fold: "fold (\<lambda>y m. max \<bar>y\<bar> m) xs (m::real) = Max (insert m (set (map abs xs)))"
proof (induction xs arbitrary: m)
  case Nil
  then show ?case by simp
next
  case (Cons x xs)
  have "Max (insert (max \<bar>x\<bar> m) (abs ` set xs)) = Max (insert m (insert \<bar>x\<bar> (abs ` set xs)))"
    by (cases "xs = []") (simp_all add: max.commute max.left_commute  max.assoc)
  with Cons show ?case by simp
qed

lemma abs_max_Max: "chunk \<noteq> [] \<Longrightarrow> abs_max chunk = Inr (Max (set (map abs chunk)))"
  by (cases chunk) (simp_all add: abs_max_fold)

lemma normalize_length: "normalize chunk = Inr stored \<Longrightarrow> length stored = length chunk"
  by (auto simp: normalize_def split: sum.splits if_splits)

lemma normalize_empty: "normalize [] = Inl RuntimeError"
  by (simp add: normalize_def)

lemma normalize_returns: "chunk \<noteq> [] \<Longrightarrow> \<exists>stored. normalize chunk = Inr stored"
  by (cases chunk) (simp_all add: normalize_def)

lemma add_audio_chunk_Inr:
  assumes "add_audio_chunk audio_chunk s = Inr s'"
  obtains stored where "normalize (to_tensor audio_chunk) = Inr stored"
    and "evict (max_buffer_samples s) (total_samples (audio_buffer s @ [stored]))
           (audio_buffer s @ [stored]) = Inr (audio_buffer s')"
    and "s' = s\<lparr>audio_buffer := audio_buffer s'\<rparr>"
  using assms
  by (auto simp: add_audio_chunk_def Let_def split: sum.splits)

lemma add_audio_chunk_returns:
  assumes "0 \<le> max_buffer_samples s" and "to_tensor audio_chunk \<noteq> []"
  shows "\<exists>s'. add_audio_chunk audio_chunk s = Inr s'"
proof -
  from normalize_returns [OF assms(2)]
  obtain stored where n: "normalize (to_tensor audio_chunk) = Inr stored" by blast
  from evict_returns [OF assms(1), of "audio_buffer s @ [stored]"]
  obtain buf' where "evict (max_buffer_samples s) (total_samples (audio_buffer s @ [stored]))
           (audio_buffer s @ [stored]) = Inr buf'" by blast
  with n show ?thesis by (simp add: add_audio_chunk_def Let_def)
qed

text \<open>
  Claim C2. Whenever a call of \<open>add_audio_chunk\<close> returns, the sample counts of the chunks
  in the buffer add up to at most \<open>max_buffer_samples\<close>, and the buffer is a suffix of the
  old buffer followed by the new (normalised) chunk: chunks were dropped whole, oldest
  first. This holds from every prior buffer, hence after every sequence of calls.
\<close>

theorem add_audio_chunk_within_cap:
  assumes "add_audio_chunk audio_chunk s = Inr s'"
  shows "total_samples (audio_buffer s') \<le> max_buffer_samples s'
         \<and> (\<exists>stored. normalize (to_tensor audio_chunk) = Inr stored
               \<and> suffix (audio_buffer s') (audio_buffer s @ [stored]))"
proof -
  from add_audio_chunk_Inr [OF assms]
  obtain stored where n: "normalize (to_tensor audio_chunk) = Inr stored"
    and ev: "evict (max_buffer_samples s) (total_samples (audio_buffer s @ [stored]))
           (audio_buffer s @ [stored]) = Inr (audio_buffer s')"
    and eq: "s' = s\<lparr>audio_buffer := audio_buffer s'\<rparr>"
    by blast
  have cap: "max_buffer_samples s' = max_buffer_samples s"
    by (subst eq) simp
  from evict_bound [OF ev] cap have "total_samples (audio_buffer s') \<le> max_buffer_samples s'"
    by simp
  moreover from evict_suffix [OF ev] have "suffix (audio_buffer s') (audio_buffer s @ [stored])" .
  ultimately show ?thesis using n by blast
qed

theorem add_audio_chunk_within_cap_witness:
  "add_audio_chunk (PyList [1, 2, 3]) (small_session\<lparr>audio_buffer := [[0, 0, 0], [1/2, 1/2, 1/2]]\<rparr>)
     = Inr (small_session\<lparr>audio_buffer := [[1/2, 1/2, 1/2], [1/3, 2/3, 1]]\<rparr>)
   \<and> total_samples [[1/2, 1/2, 1/2], [1/3, 2/3, 1::real]] \<le> 8"
proof -
  have run: "add_audio_chunk (PyList [1, 2, 3]) (small_session\<lparr>audio_buffer := [[0, 0, 0], [1/2, 1/2, 1/2]]\<rparr>)
     = Inr (small_session\<lparr>audio_buffer := [[1/2, 1/2, 1/2], [1/3, 2/3, 1]]\<rparr>)"
    by (simp add: add_audio_chunk_def normalize_def small_session_def init_def total_samples_def)
  from add_audio_chunk_within_cap [OF run] show ?thesis
    using run by (simp add: small_session_def init_def)
qed

lemma suffix_last: "suffix xs ys \<Longrightarrow> xs \<noteq> [] \<Longrightarrow> last xs = last ys"
  by (auto simp: suffix_def)

text \<open>
  Claim C8. For a non-empty chunk with peak absolute value \<open>peak\<close>, the chunk that
  \<open>add_audio_chunk\<close> appends is every sample divided by \<open>peak\<close> when \<open>peak > 1\<close>, and the
  chunk itself when \<open>peak \<le> 1\<close>; it is what the normalisation returns, what the eviction
  loop receives at the end of the buffer, and, when the call returns with a non-empty
  buffer, the newest chunk in it.
\<close>

theorem add_audio_chunk_rescales:
  assumes "to_tensor audio_chunk = chunk" and "chunk \<noteq> []"
    and "peak = Max (set (map abs chunk))"
    and "stored = (if peak > 1 then map (\<lambda>x. x / peak) chunk else chunk)"
  shows "normalize chunk = Inr stored
         \<and> add_audio_chunk audio_chunk s =
             (case evict (max_buffer_samples s) (total_samples (audio_buffer s @ [stored]))
                     (audio_buffer s @ [stored]) of
                Inl err \<Rightarrow> Inl err
              | Inr buf \<Rightarrow> Inr (s\<lparr>audio_buffer := buf\<rparr>))
         \<and> (\<forall>s'. add_audio_chunk audio_chunk s = Inr s' \<and> audio_buffer s' \<noteq> []
                \<longrightarrow> last (audio_buffer s') = stored)"
proof -
  have n: "normalize chunk = Inr stored"
    using assms(2-4) by (simp add: normalize_def abs_max_Max)
  have run: "add_audio_chunk audio_chunk s =
             (case evict (max_buffer_samples s) (total_samples (audio_buffer s @ [stored]))
                     (audio_buffer s @ [stored]) of
                Inl err \<Rightarrow> Inl err
              | Inr buf \<Rightarrow> Inr (s\<lparr>audio_buffer := buf\<rparr>))"
    using n assms(1) by (simp add: add_audio_chunk_def Let_def)
  have lst: "last (audio_buffer s') = stored"
    if r: "add_audio_chunk audio_chunk s = Inr s'" and ne: "audio_buffer s' \<noteq> []" for s'
  proof -
    from add_audio_chunk_Inr [OF r]
    obtain stored' where n': "normalize (to_tensor audio_chunk) = Inr stored'"
      and ev: "evict (max_buffer_samples s) (total_samples (audio_buffer s @ [stored']))
           (audio_buffer s @ [stored']) = Inr (audio_buffer s')"
      by blast
    from n n' assms(1) have "stored' = stored" by simp
    with suffix_last [OF evict_suffix [OF ev] ne] show ?thesis by simp
  qed
  show ?thesis
  proof (intro conjI allI impI)
    show "normalize chunk = Inr stored" by (rule n)
    show "add_audio_chunk audio_chunk s =
             (case evict (max_buffer_samples s) (total_samples (audio_buffer s @ [stored]))
                     (audio_buffer s @ [stored]) of
                Inl err \<Rightarrow> Inl err
              | Inr buf \<Rightarrow> Inr (s\<lparr>audio_buffer := buf\<rparr>))" by (rule run)
    fix s' assume "add_audio_chunk audio_chunk s = Inr s' \<and> audio_buffer s' \<noteq> []"
    then show "last (audio_buffer s') = stored" using lst by blast
  qed
qed

theorem add_audio_chunk_rescales_witness:
  "to_tensor (NdArray [1, -4, 2]) = [1, -4, 2] \<and> [1, -4, 2::real] \<noteq> []
   \<and> (4::real) = Max (set (map abs [1, -4, 2]))
   \<and> [1/4, -1, 1/2::real] = (if (4::real) > 1 then map (\<lambda>x. x / 4) [1, -4, 2] else [1, -4, 2])
   \<and> add_audio_chunk (NdArray [1, -4, 2]) small_session
        = Inr (small_session\<lparr>audio_buffer := [[1/4, -1, 1/2]]\<rparr>)
   \<and> last (audio_buffer (small_session\<lparr>audio_buffer := [[1/4, -1, 1/2]]\<rparr>)) = [1/4, -1, 1/2]"
proof -
  have h1: "to_tensor (NdArray [1, -4, 2]) = [1, -4, 2]" by simp
  have h2: "[1, -4, 2::real] \<noteq> []" by simp
  have h3: "(4::real) = Max (set (map abs [1, -4, 2]))" by simp
  have h4: "[1/4, -1, 1/2::real] = (if (4::real) > 1 then map (\<lambda>x. x / 4) [1, -4, 2] else [1, -4, 2])"
    by simp
  note T = add_audio_chunk_rescales [OF h1 h2 h3 h4, of small_session]
  have ev: "evict 8 (total_samples [[1/4, -1, 1/2::real]]) [[1/4, -1, 1/2]] = Inr [[1/4, -1, 1/2]]"
    by (simp add: total_samples_def)
  have run: "add_audio_chunk (NdArray [1, -4, 2]) small_session
        = Inr (small_session\<lparr>audio_buffer := [[1/4, -1, 1/2]]\<rparr>)"
    using T [THEN conjunct2, THEN conjunct1] ev by (simp add: small_session_def init_def)
  have lst: "last (audio_buffer (small_session\<lparr>audio_buffer := [[1/4, -1, 1/2]]\<rparr>)) = [1/4, -1, 1/2]"
    by simp
  show ?thesis using h1 h2 h3 h4 run lst by blast
qed

text \<open>
  Claim C10. A chunk with more samples than \<open>max_buffer_samples\<close> leaves the buffer empty:
  the eviction loop removes every chunk, the new one included, and the call returns
  without an error. (With a negative cap, which no buffer duration gives, the call
  raises instead.)
\<close>

theorem oversized_chunk_discarded:
  assumes "max_buffer_samples s < int (length (to_tensor audio_chunk))"
  shows "add_audio_chunk audio_chunk s =
           (if 0 \<le> max_buffer_samples s then Inr (s\<lparr>audio_buffer := []\<rparr>)
            else Inl (if to_tensor audio_chunk = [] then RuntimeError else IndexError))"
proof (cases "to_tensor audio_chunk = []")
  case True
  with assms show ?thesis by (simp add: add_audio_chunk_def normalize_empty)
next
  case False
  from normalize_returns [OF False]
  obtain stored where n: "normalize (to_tensor audio_chunk) = Inr stored" by blast
  have len: "length stored = length (to_tensor audio_chunk)" by (rule normalize_length [OF n])
  show ?thesis
  proof (cases "0 \<le> max_buffer_samples s")
    case True
    have "evict (max_buffer_samples s) (total_samples (audio_buffer s @ [stored]))
            (audio_buffer s @ [stored]) = Inr []"
      using assms len by (intro evict_all [OF True]) simp_all
    with n True show ?thesis by (simp add: add_audio_chunk_def Let_def)
  next
    case neg: False
    then have "evict (max_buffer_samples s) (total_samples (audio_buffer s @ [stored]))
            (audio_buffer s @ [stored]) = Inl IndexError"
      by (intro evict_negative_cap) simp
    with n neg False show ?thesis by (simp add: add_audio_chunk_def Let_def)
  qed
qed

theorem oversized_chunk_discarded_witness:
  "max_buffer_samples (small_session\<lparr>audio_buffer := [[0, 0, 0], [1/2, 1/2]]\<rparr>)
     < int (length (to_tensor (Tensor [0, 1, 0, 1, 0, 1, 0, 1, 0])))
   \<and> add_audio_chunk (Tensor [0, 1, 0, 1, 0, 1, 0, 1, 0])
        (small_session\<lparr>audio_buffer := [[0, 0, 0], [1/2, 1/2]]\<rparr>)
      = Inr (small_session\<lparr>audio_buffer := []\<rparr>)"
proof -
  have h: "max_buffer_samples (small_session\<lparr>audio_buffer := [[0, 0, 0], [1/2, 1/2]]\<rparr>)
     < int (length (to_tensor (Tensor [0, 1, 0, 1, 0, 1, 0, 1, 0])))"
    by (simp add: small_session_def init_def)
  from oversized_chunk_discarded [OF h] show ?thesis
    using h by (simp add: small_session_def init_def)
qed

section \<open>Draining under the lock\<close>

text \<open>
  One drain, taken as a whole: it leaves the buffer empty and changes nothing else; from
  a non-empty buffer it takes the concatenation of all chunks in their order, whose
  length is the total sample count of the buffer; from an empty buffer it takes nothing.
\<close>

lemma drain_all_sequential:
  "snd (drain_all s) = s\<lparr>audio_buffer := []\<rparr>
   \<and> (audio_buffer s \<noteq> [] \<longrightarrow> fst (drain_all s) = Some (concat (audio_buffer s)))
   \<and> (audio_buffer s = [] \<longrightarrow> fst (drain_all s) = None)
   \<and> int (length (concat (audio_buffer s))) = total_samples (audio_buffer s)"
  by (simp add: drain_all_def total_samples_concat)











section \<open>Reset is idempotent\<close>

text \<open>
  Claim C5. Resetting twice gives the session that resetting once gives. After a reset
  the audio buffer, the speech-run state, the VAD window and the interim results are
  empty, and the final results are the ones from before.
\<close>

theorem reset_idempotent:
  "reset (reset s) = reset s
   \<and> audio_buffer (reset s) = [] \<and> \<not> is_speaking (reset s) \<and> silence_counter (reset s) = 0
   \<and> speaking_buffer (reset s) = [] \<and> vad_buffer (reset s) = []
   \<and> interim_results (reset s) = []
   \<and> final_results (reset s) = final_results s
   \<and> final_results (reset (reset s)) = final_results s"
  by (simp add: reset_def)

section \<open>The VAD detector below its window\<close>

text \<open>
  Claim C9. With VAD in use, while the window (the new audio included) holds fewer samples
  than \<open>vad_buffer_size\<close>, \<open>_detect_speech_vad\<close> answers False, only appends the audio to the
  window, and hands nothing to the pipeline. The witness uses audio that the energy
  detector alone would call speech.
\<close>

theorem vad_window_too_short:
  assumes "use_vad s"
    and "total_samples (vad_buffer s @ [audio]) < vad_buffer_size s"
  shows "detect_speech_vad e audio s = (False, s\<lparr>vad_buffer := vad_buffer s @ [audio]\<rparr>)
         \<and> vad_calls (snd (detect_speech_vad e audio s)) = vad_calls s"
  using assms by (simp add: detect_speech_vad_def Let_def)

theorem vad_window_too_short_witness:
  "use_vad small_session
   \<and> total_samples (vad_buffer small_session @ [[1, 1, 1, 1, 1, 1]]) < vad_buffer_size small_session
   \<and> detect_speech_vad probe_env [1, 1, 1, 1, 1, 1] small_session
       = (False, small_session\<lparr>vad_buffer := [[1, 1, 1, 1, 1, 1]]\<rparr>)
   \<and> detect_speech_energy small_session [1, 1, 1, 1, 1, 1]"
proof -
  have h1: "use_vad small_session" by (simp add: small_session_def init_def)
  have h2: "total_samples (vad_buffer small_session @ [[1, 1, 1, 1, 1, 1]])
              < vad_buffer_size small_session"
    by (simp add: small_session_def init_def total_samples_def)
  have h3: "detect_speech_energy small_session [1, 1, 1, 1, 1, 1]"
    by (simp add: detect_speech_energy_def small_session_def init_def)
  from vad_window_too_short [OF h1 h2, of probe_env] show ?thesis
    using h1 h2 h3 by (simp add: small_session_def init_def)
qed

section \<open>Runs of the segmentation loop\<close>

lemma same_setup_refl: "same_setup s s"
  by (simp add: same_setup_def)

lemma same_setup_trans: "same_setup s s1 \<Longrightarrow> same_setup s1 s2 \<Longrightarrow> same_setup s s2"
  by (simp add: same_setup_def)

lemma process_subchunks_stopped: "\<not> running s \<Longrightarrow> process_subchunks det e evs s = Inr s"
  by (cases evs) auto

lemma handle_subchunk_setup: "handle_subchunk e b now c s = Inr s' \<Longrightarrow> same_setup s s'"
  by (auto simp: handle_subchunk_def Let_def same_setup_def perform_interim_recognition_def
      finalize_speech_segment_def split: if_splits sum.splits)

lemma process_subchunks_append:
  "process_subchunks det e (xs @ ys) s =
     (case process_subchunks det e xs s of
        Inl err \<Rightarrow> Inl err
      | Inr s' \<Rightarrow> process_subchunks det e ys s')"
proof (induction xs arbitrary: s)
  case Nil
  show ?case by simp
next
  case (Cons ev xs)
  obtain now c where ev: "ev = (now, c)" by (cases ev)
  show ?case
  proof (cases "running s")
    case False
    then show ?thesis by (simp add: ev process_subchunks_stopped)
  next
    case True
    then show ?thesis using Cons.IH by (simp add: ev split: sum.splits)
  qed
qed

lemma speech_step:
  assumes "stabilization_frames s \<noteq> 0" and "sample_rate s \<noteq> 0"
  shows "\<exists>s'. handle_subchunk e True now c s = Inr s'
           \<and> is_speaking s'
           \<and> speaking_buffer s' = (if is_speaking s then speaking_buffer s else []) @ [c]
           \<and> silence_counter s' = 0
           \<and> final_results s' = final_results s
           \<and> length (interim_results s') = length (interim_results s) +
               (if stabilization_frames s dvd int (length (speaking_buffer s')) then 1 else 0)
           \<and> (\<forall>r \<in> set (interim_results s') - set (interim_results s). \<not> is_final r)
           \<and> same_setup s s'"
  using assms
  by (auto simp: handle_subchunk_def Let_def perform_interim_recognition_def torch_cat_def
      make_result_def same_setup_def mod_eq_0_iff_dvd)


lemma div_step_nat:
  fixes d m :: nat
  shows "Suc m div d = m div d + (if d dvd Suc m then 1 else 0)"
  by (simp add: div_Suc mod_eq_0_iff_dvd)

lemma speech_run:
  assumes "\<forall>ev \<in> set evs. det (snd ev)" and "running s"
    and "stabilization_frames s \<noteq> 0" and "sample_rate s \<noteq> 0"
  shows "\<exists>s'. process_subchunks det e evs s = Inr s'
           \<and> (evs \<noteq> [] \<longrightarrow> is_speaking s' \<and> silence_counter s' = 0)
           \<and> current_run s' = current_run s @ map snd evs
           \<and> final_results s' = final_results s
           \<and> same_setup s s'
           \<and> (0 < stabilization_frames s \<longrightarrow>
                length (interim_results s') = length (interim_results s) +
                  ((length (current_run s) + length evs) div nat (stabilization_frames s)
                    - length (current_run s) div nat (stabilization_frames s)))"
  using assms
proof (induction evs arbitrary: s)
  case Nil
  then show ?case by (simp add: same_setup_refl)
next
  case (Cons ev evs)
  obtain now c where ev: "ev = (now, c)" by (cases ev)
  from Cons.prems have dc: "det c" by (simp add: ev)
  from speech_step [OF Cons.prems(3) Cons.prems(4), of e now c]
  obtain s1 where s1: "handle_subchunk e True now c s = Inr s1"
    and sp1: "is_speaking s1"
    and buf1: "speaking_buffer s1 = current_run s @ [c]"
    and sil1: "silence_counter s1 = 0"
    and fin1: "final_results s1 = final_results s"
    and int1: "length (interim_results s1) = length (interim_results s) +
               (if stabilization_frames s dvd int (length (speaking_buffer s1)) then 1 else 0)"
    and set1: "same_setup s s1"
    unfolding current_run_def by blast
  from set1 Cons.prems have run1: "running s1" and sf1: "stabilization_frames s1 \<noteq> 0"
    and sr1: "sample_rate s1 \<noteq> 0" and sfeq: "stabilization_frames s1 = stabilization_frames s"
    by (simp_all add: same_setup_def)
  have cur1: "current_run s1 = current_run s @ [c]"
    using sp1 buf1 by (simp add: current_run_def)
  from Cons.prems have rest: "\<forall>ev \<in> set evs. det (snd ev)" by simp
  from Cons.IH [OF rest run1 sf1 sr1]
  obtain s' where s': "process_subchunks det e evs s1 = Inr s'"
    and sp': "evs \<noteq> [] \<longrightarrow> is_speaking s' \<and> silence_counter s' = 0"
    and buf': "current_run s' = current_run s1 @ map snd evs"
    and fin': "final_results s' = final_results s1"
    and set': "same_setup s1 s'"
    and int': "0 < stabilization_frames s1 \<longrightarrow>
                length (interim_results s') = length (interim_results s1) +
                  ((length (current_run s1) + length evs) div nat (stabilization_frames s1)
                    - length (current_run s1) div nat (stabilization_frames s1))"
    by blast
  have run: "process_subchunks det e (ev # evs) s = Inr s'"
    using Cons.prems(2) dc s1 s' by (simp add: ev)
  have sp: "is_speaking s' \<and> silence_counter s' = 0"
  proof (cases "evs = []")
    case True
    with s' sil1 sp1 show ?thesis by simp
  next
    case False
    with sp' show ?thesis by simp
  qed
  have cnt: "0 < stabilization_frames s \<longrightarrow>
                length (interim_results s') = length (interim_results s) +
                  ((length (current_run s) + length (ev # evs)) div nat (stabilization_frames s)
                    - length (current_run s) div nat (stabilization_frames s))"
  proof
    assume pos: "0 < stabilization_frames s"
    define d where "d = nat (stabilization_frames s)"
    define m where "m = length (current_run s)"
    have sfd: "stabilization_frames s = int d" using pos by (simp add: d_def)
    have len1: "length (speaking_buffer s1) = Suc m" by (simp add: buf1 m_def)
    have len1': "length (current_run s1) = Suc m" by (simp add: cur1 m_def)
    have dv: "(stabilization_frames s dvd int (length (speaking_buffer s1))) = (d dvd Suc m)"
      by (simp only: sfd len1 int_dvd_int_iff)
    have head: "length (interim_results s1) = length (interim_results s) + (Suc m div d - m div d)"
      using int1 unfolding dv by (simp add: div_step_nat)
    have tail: "length (interim_results s') = length (interim_results s1) +
                  ((Suc m + length evs) div d - Suc m div d)"
      using int' pos by (simp add: sfeq len1' d_def)
    have mono1: "m div d \<le> Suc m div d" by (simp add: div_le_mono)
    have mono2: "Suc m div d \<le> (Suc m + length evs) div d" by (simp add: div_le_mono)
    have "length (interim_results s') =
            length (interim_results s) + ((Suc m + length evs) div d - m div d)"
      using head tail mono1 mono2 by linarith
    then show "length (interim_results s') = length (interim_results s) +
                  ((length (current_run s) + length (ev # evs)) div nat (stabilization_frames s)
                    - length (current_run s) div nat (stabilization_frames s))"
      by (simp add: d_def m_def)
  qed
  show ?case
    using run sp buf' cur1 fin' fin1 same_setup_trans [OF set1 set'] cnt
    by (intro exI [of _ s']) (simp add: ev)
qed

lemma quiet_run:
  assumes "\<forall>ev \<in> set evs. \<not> det (snd ev) \<and> int (length (snd ev)) = cs"
    and "running s" and "is_speaking s" and "0 \<le> cs"
    and "evs = [] \<or> silence_counter s + int (length evs) * cs < min_silence_samples s"
  shows "\<exists>s'. process_subchunks det e evs s = Inr s'
           \<and> is_speaking s'
           \<and> speaking_buffer s' = speaking_buffer s @ map snd evs
           \<and> silence_counter s' = silence_counter s + int (length evs) * cs
           \<and> final_results s' = final_results s
           \<and> interim_results s' = interim_results s
           \<and> same_setup s s'"
  using assms
proof (induction evs arbitrary: s)
  case Nil
  then show ?case by (simp add: same_setup_refl)
next
  case (Cons ev evs)
  obtain now c where ev: "ev = (now, c)" by (cases ev)
  from Cons.prems(1) have nd: "\<not> det c" and lc: "int (length c) = cs" by (simp_all add: ev)
  from Cons.prems(5) have total: "silence_counter s + (1 + int (length evs)) * cs < min_silence_samples s"
    by simp
  have "0 \<le> int (length evs) * cs" using Cons.prems(4) by simp
  with total have less: "silence_counter s + cs < min_silence_samples s"
    by (simp add: algebra_simps)
  define s1 where "s1 = s\<lparr> speaking_buffer := speaking_buffer s @ [c],
                              silence_counter := silence_counter s + int (length c) \<rparr>"
  have step: "handle_subchunk e False now c s = Inr s1"
    using Cons.prems(3) less lc by (simp add: handle_subchunk_def Let_def s1_def)
  have run1: "running s1" and sp1: "is_speaking s1" and set1: "same_setup s s1"
    using Cons.prems by (simp_all add: s1_def same_setup_def)
  have c1: "silence_counter s1 = silence_counter s + cs" by (simp add: s1_def lc)
  have rest: "\<forall>ev \<in> set evs. \<not> det (snd ev) \<and> int (length (snd ev)) = cs"
    using Cons.prems(1) by simp
  have bound: "evs = [] \<or> silence_counter s1 + int (length evs) * cs < min_silence_samples s1"
    using total by (simp add: s1_def lc algebra_simps)
  from Cons.IH [OF rest run1 sp1 Cons.prems(4) bound]
  obtain s' where s': "process_subchunks det e evs s1 = Inr s'"
    and sp': "is_speaking s'"
    and buf': "speaking_buffer s' = speaking_buffer s1 @ map snd evs"
    and sil': "silence_counter s' = silence_counter s1 + int (length evs) * cs"
    and fin': "final_results s' = final_results s1"
    and int': "interim_results s' = interim_results s1"
    and set': "same_setup s1 s'"
    by blast
  have run: "process_subchunks det e (ev # evs) s = Inr s'"
    using Cons.prems(2) nd step s' by (simp add: ev)
  have cnt: "silence_counter s' = silence_counter s + int (length (ev # evs)) * cs"
    using sil' c1 by (simp add: algebra_simps)
  show ?case
    using run sp' buf' cnt fin' int' same_setup_trans [OF set1 set']
    by (intro exI [of _ s']) (simp add: ev s1_def)
qed

lemma final_step:
  assumes "is_speaking s" and "sample_rate s \<noteq> 0"
    and "min_silence_samples s \<le> silence_counter s + int (length c)"
  shows "\<exists>s' r. handle_subchunk e False now c s = Inr s'
           \<and> final_results s' = final_results s @ [r]
           \<and> is_final r
           \<and> duration r = format_time e
                (real (length (concat (speaking_buffer s @ [c]))) / real_of_int (sample_rate s))
           \<and> interim_results s' = interim_results s
           \<and> \<not> is_speaking s'
           \<and> same_setup s s'"
  using assms
  by (simp add: handle_subchunk_def Let_def finalize_speech_segment_def torch_cat_def
      make_result_def same_setup_def)

lemma idle_silence:
  assumes "\<not> is_speaking s" and "\<forall>ev \<in> set evs. \<not> det (snd ev)"
  shows "process_subchunks det e evs s = Inr s"
  using assms
proof (induction evs)
  case Nil
  show ?case by simp
next
  case (Cons ev evs)
  obtain now c where ev: "ev = (now, c)" by (cases ev)
  from Cons show ?case by (simp add: ev handle_subchunk_def)
qed

lemma length_concat_uniform:
  "\<forall>c \<in> set chunks. int (length c) = n \<Longrightarrow> int (length (concat chunks)) = int (length chunks) * n"
  by (induction chunks) (simp_all add: algebra_simps)

lemma ceil_char:
  fixes m c j :: int
  assumes "0 < c"
  shows "j < \<lceil>real_of_int m / real_of_int c\<rceil> \<longleftrightarrow> j * c < m"
proof -
  have "j < \<lceil>real_of_int m / real_of_int c\<rceil> \<longleftrightarrow> real_of_int j < real_of_int m / real_of_int c"
    by (simp add: less_ceiling_iff)
  also have "\<dots> \<longleftrightarrow> real_of_int j * real_of_int c < real_of_int m"
    using assms by (simp add: pos_less_divide_eq)
  also have "\<dots> \<longleftrightarrow> j * c < m"
    by (simp flip: of_int_mult)
  finally show ?thesis .
qed

lemma process_subchunks_single:
  "running s \<Longrightarrow> process_subchunks det e [(now, c)] s = handle_subchunk e (det c) now c s"
  by (simp split: sum.splits)

text \<open>
  Claim C3. Every sub-chunk the worker loop handles is classified as speech by
  \<open>_detect_speech\<close>, joins the run, and is followed by exactly one interim result when
  the number of sub-chunks in the run is then a multiple of \<open>stabilization_frames\<close>, and
  by none otherwise; no final result is added. From an idle session,
  \<open>3 * stabilization_frames\<close> sub-chunks give exactly 3 interim results and no final one.
  (A zero \<open>stabilization_frames\<close> or sample rate raises instead.)
\<close>

theorem interim_cadence:
  assumes "running s" and "stabilization_frames s \<noteq> 0" and "sample_rate s \<noteq> 0"
  shows "(\<exists>s' rs. process_subchunks detect_speech e [(now, subchunk)] s = Inr s'
            \<and> is_speaking s'
            \<and> speaking_buffer s' = current_run s @ [subchunk]
            \<and> interim_results s' = interim_results s @ rs
            \<and> length rs =
                 (if stabilization_frames s dvd int (length (speaking_buffer s')) then 1 else 0)
            \<and> (\<forall>r \<in> set rs. \<not> is_final r)
            \<and> final_results s' = final_results s)
         \<and> (0 < stabilization_frames s \<and> \<not> is_speaking s
              \<and> int (length evs) = 3 * stabilization_frames s \<longrightarrow>
             (\<exists>s'. process_subchunks detect_speech e evs s = Inr s'
                \<and> is_speaking s'
                \<and> length (interim_results s') = length (interim_results s) + 3
                \<and> final_results s' = final_results s))"
proof (intro conjI impI)
  show "\<exists>s' rs. process_subchunks detect_speech e [(now, subchunk)] s = Inr s'
            \<and> is_speaking s'
            \<and> speaking_buffer s' = current_run s @ [subchunk]
            \<and> interim_results s' = interim_results s @ rs
            \<and> length rs =
                 (if stabilization_frames s dvd int (length (speaking_buffer s')) then 1 else 0)
            \<and> (\<forall>r \<in> set rs. \<not> is_final r)
            \<and> final_results s' = final_results s"
    using assms
    by (auto simp: detect_speech_def handle_subchunk_def Let_def current_run_def
        perform_interim_recognition_def torch_cat_def make_result_def mod_eq_0_iff_dvd)
next
  assume h: "0 < stabilization_frames s \<and> \<not> is_speaking s
              \<and> int (length evs) = 3 * stabilization_frames s"
  define d where "d = nat (stabilization_frames s)"
  from h have d: "0 < d" by (simp add: d_def)
  from h have "int (length evs) = int (3 * d)" by (simp add: d_def)
  then have len: "length evs = 3 * d" by (simp only: int_int_eq)
  have all: "\<forall>ev \<in> set evs. detect_speech (snd ev)" by (simp add: detect_speech_def)
  from d len have ne: "evs \<noteq> []" by auto
  from speech_run [OF all assms, of e]
  obtain s' where r: "process_subchunks detect_speech e evs s = Inr s'"
    and sp: "is_speaking s'"
    and fin: "final_results s' = final_results s"
    and cnt: "length (interim_results s') = length (interim_results s) +
                  ((length (current_run s) + length evs) div d - length (current_run s) div d)"
    using ne h unfolding d_def by blast
  from h have "current_run s = []" by (simp add: current_run_def)
  with cnt d have "length (interim_results s') = length (interim_results s) + 3"
    by (simp add: len)
  with r sp fin show "\<exists>s'. process_subchunks detect_speech e evs s = Inr s'
                \<and> is_speaking s'
                \<and> length (interim_results s') = length (interim_results s) + 3
                \<and> final_results s' = final_results s"
    by blast
qed


theorem interim_cadence_witness:
  "running small_session \<and> stabilization_frames small_session \<noteq> 0
   \<and> sample_rate small_session \<noteq> 0 \<and> 0 < stabilization_frames small_session
   \<and> \<not> is_speaking small_session
   \<and> int (length [(1::real, [1, 1::real]), (2, [1, 1]), (3, [1, 1]), (4, [1, 1]), (5, [1, 1]), (6, [1, 1])])
       = 3 * stabilization_frames small_session
   \<and> (\<exists>s'. process_subchunks detect_speech probe_env
               [(1, [1, 1]), (2, [1, 1]), (3, [1, 1]), (4, [1, 1]), (5, [1, 1]), (6, [1, 1])]
               small_session = Inr s'
          \<and> length (interim_results s') = 3 \<and> final_results s' = [])"
proof -
  have h1: "running small_session" and h2: "stabilization_frames small_session \<noteq> 0"
    and h3: "sample_rate small_session \<noteq> 0"
    by (simp_all add: small_session_def init_def)
  have h4: "0 < stabilization_frames small_session \<and> \<not> is_speaking small_session
     \<and> int (length [(1::real, [1, 1::real]), (2, [1, 1]), (3, [1, 1]), (4, [1, 1]), (5, [1, 1]), (6, [1, 1])])
       = 3 * stabilization_frames small_session"
    by (simp add: small_session_def init_def)
  have e: "interim_results small_session = [] \<and> final_results small_session = []"
    by (simp add: small_session_def init_def)
  from interim_cadence [OF h1 h2 h3, of probe_env 0 "[]"
      "[(1, [1, 1]), (2, [1, 1]), (3, [1, 1]), (4, [1, 1]), (5, [1, 1]), (6, [1, 1])]",
      THEN conjunct2, rule_format, OF h4]
  obtain s' where "process_subchunks detect_speech probe_env
               [(1, [1, 1]), (2, [1, 1]), (3, [1, 1]), (4, [1, 1]), (5, [1, 1]), (6, [1, 1])]
               small_session = Inr s'"
    and "length (interim_results s') = length (interim_results small_session) + 3"
    and "final_results s' = final_results small_session"
    by blast
  with e have "\<exists>s'. process_subchunks detect_speech probe_env
               [(1, [1, 1]), (2, [1, 1]), (3, [1, 1]), (4, [1, 1]), (5, [1, 1]), (6, [1, 1])]
               small_session = Inr s'
          \<and> length (interim_results s') = 3 \<and> final_results s' = []"
    by auto
  with h1 h2 h3 h4 show ?thesis by blast
qed

section \<open>Silence never closes a run\<close>

text \<open>
  \<open>_process_stream\<close> classifies with \<open>_detect_speech\<close>, which returns True for every
  sub-chunk. The branch that counts silence and finalizes the run is therefore never
  taken: no iteration of the worker loop adds a final result.
\<close>

lemma slow_session_fields:
  "sample_rate slow_session = 20" "chunk_size slow_session = 5"
  "min_silence_samples slow_session = 16" "stabilization_frames slow_session = 5"
  "running slow_session" "\<not> is_speaking slow_session" "threshold slow_session = 1/100"
  "final_results slow_session = []"
  by (simp_all add: slow_session_def init_def py_int_def)

lemma slow_detector:
  "detect_speech_energy slow_session [1, 1, 1, 1, 1]"
  "\<not> detect_speech_energy slow_session [0, 0, 0, 0, 0]"
  by (simp_all add: detect_speech_energy_def slow_session_fields)

lemma speech_keeps_final_results:
  "handle_subchunk e True now c s = Inr s' \<Longrightarrow> final_results s' = final_results s"
  by (auto simp: handle_subchunk_def Let_def perform_interim_recognition_def
      split: if_splits sum.splits)

lemma process_subchunks_never_finalizes:
  "process_subchunks detect_speech e evs s = Inr s' \<Longrightarrow> final_results s' = final_results s"
proof (induction evs arbitrary: s)
  case Nil
  then show ?case by simp
next
  case (Cons ev evs)
  obtain now c where ev: "ev = (now, c)" by (cases ev)
  show ?case
  proof (cases "running s")
    case False
    with Cons.prems show ?thesis by (simp add: ev)
  next
    case True
    have dt: "detect_speech c = True" by (simp add: detect_speech_def)
    from True Cons.prems obtain s1 where h: "handle_subchunk e True now c s = Inr s1"
      and r: "process_subchunks detect_speech e evs s1 = Inr s'"
      by (auto simp: ev dt split: sum.splits)
    from Cons.IH [OF r] speech_keeps_final_results [OF h] show ?thesis by simp
  qed
qed

lemma worker_never_finalizes:
  "process_stream_iteration e clock s = Inr s' \<Longrightarrow> final_results s' = final_results s"
  by (auto simp: process_stream_iteration_def drain_all_def
      split: if_splits sum.splits dest: process_subchunks_never_finalizes)

text \<open>
  Claim C1. The claim expects one final result from speech followed by enough silence,
  and the loop has the branch for it. The code misses it: on one sub-chunk of ones
  followed by five sub-chunks of zeros (\<open>\<lceil>16 / 5\<rceil> + 1\<close> of them, silent for the energy
  detector), the worker classifies all six as speech, keeps the run open with all six
  in it, emits an interim result at the fifth, and emits no final result.
\<close>

theorem final_result_never_emitted:
  "detect_speech_energy slow_session [1, 1, 1, 1, 1]
   \<and> \<not> detect_speech_energy slow_session [0, 0, 0, 0, 0]
   \<and> nat \<lceil>real_of_int (min_silence_samples slow_session)
              / real_of_int (chunk_size slow_session)\<rceil> + 1 = 5
   \<and> process_stream_iteration probe_env real
        (slow_session\<lparr>audio_buffer :=
           [[1, 1, 1, 1, 1], [0, 0, 0, 0, 0], [0, 0, 0, 0, 0], [0, 0, 0, 0, 0],
            [0, 0, 0, 0, 0], [0, 0, 0, 0, 0]]\<rparr>)
       = Inr (slow_session
               \<lparr> is_speaking := True,
                 speaking_buffer :=
                   [[1, 1, 1, 1, 1], [0, 0, 0, 0, 0], [0, 0, 0, 0, 0], [0, 0, 0, 0, 0],
                    [0, 0, 0, 0, 0], [0, 0, 0, 0, 0]],
                 interim_results := [\<lparr> result_text = '''', start_time = 11/4, end_time = 4,
                                      duration = 5/4, is_final = False \<rparr>] \<rparr>)
   \<and> final_results slow_session = []"
proof -
  have subs: "subchunks 5
        [1, 1, 1, 1, 1, 0, 0, 0, 0, 0, 0, 0, 0, 0, 0, 0, 0, 0, 0, 0, 0, 0, 0, 0, 0, 0, 0, 0, 0, 0]
      = Inr [[1, 1, 1, 1, 1], [0, 0, 0, 0, 0], [0, 0, 0, 0, 0], [0, 0, 0, 0, 0],
             [0, 0, 0, 0, 0], [0::real, 0, 0, 0, 0]]"
    by (simp add: subchunks_def upt_rec)
  show ?thesis
    by (simp add: slow_detector slow_session_fields process_stream_iteration_def drain_all_def
        subs upt_rec detect_speech_def handle_subchunk_def Let_def
        perform_interim_recognition_def torch_cat_def make_result_def deliver_def probe_env_def)
      (simp add: slow_session_def init_def py_int_def)
qed

text \<open>
  What the loop does when the detector handed to it tells silence from speech, as the
  energy detector does: from an idle session, at least one speech sub-chunk followed by
  \<open>\<lceil>min_silence_samples / chunk_size\<rceil> + 1\<close> silent sub-chunks, all of \<open>chunk_size\<close>
  samples, gives exactly one final result, whose duration covers the speech sub-chunks
  and the silent sub-chunks up to the one that closes the run.
\<close>

lemma silence_branch_closes_run:
  assumes idle: "\<not> is_speaking s" and run: "running s"
    and sf: "stabilization_frames s \<noteq> 0" and sr: "sample_rate s \<noteq> 0"
    and cs: "0 < chunk_size s"
    and K: "speech \<noteq> []"
    and len: "length silence =
                nat \<lceil>real_of_int (min_silence_samples s) / real_of_int (chunk_size s)\<rceil> + 1"
    and sp: "\<forall>ev \<in> set speech. det (snd ev) \<and> int (length (snd ev)) = chunk_size s"
    and si: "\<forall>ev \<in> set silence. \<not> det (snd ev) \<and> int (length (snd ev)) = chunk_size s"
  shows "\<exists>s' r. process_subchunks det e (speech @ silence) s = Inr s'
           \<and> final_results s' = final_results s @ [r]
           \<and> is_final r
           \<and> duration r = format_time e
               (real_of_int ((int (length speech)
                   + max 1 \<lceil>real_of_int (min_silence_samples s) / real_of_int (chunk_size s)\<rceil>)
                   * chunk_size s)
                / real_of_int (sample_rate s))
           \<and> \<not> is_speaking s'"
proof -
  define n where "n = \<lceil>real_of_int (min_silence_samples s) / real_of_int (chunk_size s)\<rceil>"
  define a where "a = nat (max 1 n - 1)"
  have a1: "int a + 1 = max 1 n" by (simp add: a_def)
  have a_lt: "a < length silence" using len by (simp add: a_def n_def [symmetric])
  define A where "A = take a silence"
  define B where "B = drop (Suc a) silence"
  obtain now c where c: "silence ! a = (now, c)" by (cases "silence ! a")
  have split: "silence = A @ [(now, c)] @ B"
    using id_take_nth_drop [OF a_lt] by (simp add: A_def B_def c)
  have lenA: "length A = a" using a_lt by (simp add: A_def)
  \<comment> \<open>the speech run\<close>
  from sp have sp_det: "\<forall>ev \<in> set speech. det (snd ev)" by simp
  from speech_run [OF sp_det run sf sr, of e]
  obtain s2 where r2: "process_subchunks det e speech s = Inr s2"
    and speaking2: "is_speaking s2" and cnt2: "silence_counter s2 = 0"
    and cur2: "current_run s2 = current_run s @ map snd speech"
    and fin2: "final_results s2 = final_results s"
    and set2: "same_setup s s2"
    using K by blast
  have buf2: "speaking_buffer s2 = map snd speech"
    using cur2 speaking2 idle by (simp add: current_run_def)
  from set2 run sr have run2: "running s2" and sr2: "sample_rate s2 = sample_rate s"
    and cs2: "chunk_size s2 = chunk_size s" and ms2: "min_silence_samples s2 = min_silence_samples s"
    by (simp_all add: same_setup_def)
  \<comment> \<open>silence that does not yet close the segment\<close>
  have siA: "\<forall>ev \<in> set A. \<not> det (snd ev) \<and> int (length (snd ev)) = chunk_size s"
    using si by (auto simp: A_def dest: in_set_takeD)
  have siB: "\<forall>ev \<in> set B. \<not> det (snd ev)"
    using si by (auto simp: B_def dest: in_set_dropD)
  have sic: "\<not> det c" and lc: "int (length c) = chunk_size s"
    using si a_lt c nth_mem [OF a_lt] by force+
  have quiet: "A = [] \<or> silence_counter s2 + int (length A) * chunk_size s < min_silence_samples s2"
  proof (cases "a = 0")
    case True
    then show ?thesis using lenA by simp
  next
    case False
    then have "int a < n" by (simp add: a_def)
    then have "int a * chunk_size s < min_silence_samples s"
      unfolding n_def using ceil_char [OF cs] by simp
    then show ?thesis by (simp add: lenA cnt2 ms2)
  qed
  from cs have cs0: "0 \<le> chunk_size s" by simp
  from quiet_run [OF siA run2 speaking2 cs0 quiet, of e]
  obtain s3 where r3: "process_subchunks det e A s2 = Inr s3"
    and speaking3: "is_speaking s3"
    and buf3: "speaking_buffer s3 = speaking_buffer s2 @ map snd A"
    and cnt3: "silence_counter s3 = silence_counter s2 + int (length A) * chunk_size s"
    and fin3: "final_results s3 = final_results s2"
    and set3: "same_setup s2 s3"
    by blast
  from set3 run2 sr2 sr cs2 ms2 have run3: "running s3" and sr3: "sample_rate s3 = sample_rate s"
    and ms3: "min_silence_samples s3 = min_silence_samples s" and srn3: "sample_rate s3 \<noteq> 0"
    by (simp_all add: same_setup_def)
  \<comment> \<open>the sub-chunk that closes it\<close>
  have "\<not> (int a + 1 < n)" using a1 by simp
  then have "\<not> ((int a + 1) * chunk_size s < min_silence_samples s)"
    unfolding n_def using ceil_char [OF cs, of "int a + 1" "min_silence_samples s"] by simp
  then have enough: "min_silence_samples s3 \<le> silence_counter s3 + int (length c)"
    by (simp add: cnt3 cnt2 lenA lc ms3 algebra_simps)
  from final_step [OF speaking3 srn3 enough, of e now]
  obtain s4 r where r4: "handle_subchunk e False now c s3 = Inr s4"
    and fin4: "final_results s4 = final_results s3 @ [r]"
    and isf: "is_final r"
    and dur: "duration r = format_time e
                (real (length (concat (speaking_buffer s3 @ [c]))) / real_of_int (sample_rate s3))"
    and idle4: "\<not> is_speaking s4"
    by blast
  have r4': "process_subchunks det e [(now, c)] s3 = Inr s4"
    using r4 sic run3 by (simp add: process_subchunks_single)
  \<comment> \<open>silence after the segment\<close>
  have r5: "process_subchunks det e B s4 = Inr s4"
    by (rule idle_silence [OF idle4 siB])
  have t1: "process_subchunks det e ([(now, c)] @ B) s3 = Inr s4"
    using process_subchunks_append [of det e "[(now, c)]" B s3] by (simp only: r4' r5 sum.case)
  have t2: "process_subchunks det e (A @ [(now, c)] @ B) s2 = Inr s4"
    using process_subchunks_append [of det e A "[(now, c)] @ B" s2] by (simp only: r3 t1 sum.case)
  have t3: "process_subchunks det e silence s2 = Inr s4"
    by (subst split) (rule t2)
  have whole: "process_subchunks det e (speech @ silence) s = Inr s4"
    using process_subchunks_append [of det e speech silence s]
    by (simp only: r2 t3 sum.case)
  \<comment> \<open>the length of the segment\<close>
  have all_cs: "\<forall>x \<in> set (map snd speech @ map snd A @ [c]). int (length x) = chunk_size s"
    using sp siA lc by auto
  have "int (length (concat (speaking_buffer s3 @ [c])))
          = int (length (map snd speech @ map snd A @ [c])) * chunk_size s"
    using length_concat_uniform [OF all_cs] by (simp add: buf3 buf2)
  also have "\<dots> = (int (length speech) + (int a + 1)) * chunk_size s"
    by (simp add: lenA algebra_simps)
  also have "\<dots> = (int (length speech) + max 1 n) * chunk_size s"
    by (simp only: a1)
  finally have seg: "real (length (concat (speaking_buffer s3 @ [c])))
          = real_of_int ((int (length speech) + max 1 n) * chunk_size s)"
    by (metis of_int_of_nat_eq)
  have dur': "duration r = format_time e
               (real_of_int ((int (length speech) + max 1 n) * chunk_size s)
                / real_of_int (sample_rate s))"
    using dur by (simp only: seg sr3)
  have fin: "final_results s4 = final_results s @ [r]"
    by (simp add: fin4 fin3 fin2)
  show ?thesis
    using whole fin isf dur' idle4 unfolding n_def
    by (intro exI [of _ s4] exI [of _ r] conjI)
qed

lemma energy_detector_closes_run:
  "\<not> is_speaking slow_session \<and> running slow_session
   \<and> stabilization_frames slow_session \<noteq> 0 \<and> sample_rate slow_session \<noteq> 0
   \<and> 0 < chunk_size slow_session
   \<and> [(1::real, [1, 1, 1, 1, 1::real])] \<noteq> []
   \<and> length [(2::real, [0, 0, 0, 0, 0::real]), (3, [0, 0, 0, 0, 0]), (4, [0, 0, 0, 0, 0]),
              (5, [0, 0, 0, 0, 0]), (6, [0, 0, 0, 0, 0])]
       = nat \<lceil>real_of_int (min_silence_samples slow_session)
               / real_of_int (chunk_size slow_session)\<rceil> + 1
   \<and> detect_speech_energy slow_session [1, 1, 1, 1, 1]
   \<and> \<not> detect_speech_energy slow_session [0, 0, 0, 0, 0]
   \<and> (\<exists>s' r. process_subchunks (detect_speech_energy slow_session) probe_env
          ([(1, [1, 1, 1, 1, 1])] @
           [(2, [0, 0, 0, 0, 0]), (3, [0, 0, 0, 0, 0]), (4, [0, 0, 0, 0, 0]),
            (5, [0, 0, 0, 0, 0]), (6, [0, 0, 0, 0, 0])]) slow_session = Inr s'
        \<and> final_results s' = [r] \<and> is_final r \<and> duration r = 5/4 \<and> \<not> is_speaking s')"
proof -
  have h1: "\<not> is_speaking slow_session" and h2: "running slow_session"
    and h3: "stabilization_frames slow_session \<noteq> 0" and h4: "sample_rate slow_session \<noteq> 0"
    and h5: "0 < chunk_size slow_session"
    by (simp_all add: slow_session_fields)
  have h6: "[(1::real, [1, 1, 1, 1, 1::real])] \<noteq> []" by simp
  have h7: "length [(2::real, [0, 0, 0, 0, 0::real]), (3, [0, 0, 0, 0, 0]), (4, [0, 0, 0, 0, 0]),
              (5, [0, 0, 0, 0, 0]), (6, [0, 0, 0, 0, 0])]
       = nat \<lceil>real_of_int (min_silence_samples slow_session)
               / real_of_int (chunk_size slow_session)\<rceil> + 1"
    by (simp add: slow_session_fields)
  have h8: "\<forall>ev \<in> set [(1::real, [1, 1, 1, 1, 1::real])].
              detect_speech_energy slow_session (snd ev)
              \<and> int (length (snd ev)) = chunk_size slow_session"
    by (simp add: slow_detector slow_session_fields)
  have h9: "\<forall>ev \<in> set [(2::real, [0, 0, 0, 0, 0::real]), (3, [0, 0, 0, 0, 0]), (4, [0, 0, 0, 0, 0]),
              (5, [0, 0, 0, 0, 0]), (6, [0, 0, 0, 0, 0])].
              \<not> detect_speech_energy slow_session (snd ev)
              \<and> int (length (snd ev)) = chunk_size slow_session"
    by (simp add: slow_detector slow_session_fields)
  have d: "format_time probe_env
               (real_of_int ((int (length [(1::real, [1, 1, 1, 1, 1::real])])
                   + max 1 \<lceil>real_of_int (min_silence_samples slow_session)
                               / real_of_int (chunk_size slow_session)\<rceil>)
                   * chunk_size slow_session)
                / real_of_int (sample_rate slow_session)) = 5/4"
    by (simp add: slow_session_fields probe_env_def)
  from silence_branch_closes_run [OF h1 h2 h3 h4 h5 h6 h7 h8 h9, of probe_env]
  obtain s' r where "process_subchunks (detect_speech_energy slow_session) probe_env
          ([(1, [1, 1, 1, 1, 1])] @
           [(2, [0, 0, 0, 0, 0]), (3, [0, 0, 0, 0, 0]), (4, [0, 0, 0, 0, 0]),
            (5, [0, 0, 0, 0, 0]), (6, [0, 0, 0, 0, 0])]) slow_session = Inr s'"
    and "final_results s' = final_results slow_session @ [r]" and "is_final r"
    and "duration r = 5/4" and "\<not> is_speaking s'"
    unfolding d by blast
  then have "\<exists>s' r. process_subchunks (detect_speech_energy slow_session) probe_env
          ([(1, [1, 1, 1, 1, 1])] @
           [(2, [0, 0, 0, 0, 0]), (3, [0, 0, 0, 0, 0]), (4, [0, 0, 0, 0, 0]),
            (5, [0, 0, 0, 0, 0]), (6, [0, 0, 0, 0, 0])]) slow_session = Inr s'
        \<and> final_results s' = [r] \<and> is_final r \<and> duration r = 5/4 \<and> \<not> is_speaking s'"
    by (auto simp: slow_session_fields)
  with h1 h2 h3 h4 h5 h6 h7 slow_detector show ?thesis by blast
qed

section \<open>The offline segmenter\<close>

lemma first_segment:
  assumes "0 \<le> s1" and "s1 < e1" and "e1 \<le> len_s" and "0 \<le> min_d"
  shows "segment_step slice len_s max_d min_d thr initial_seg_state (s1, e1)
           = \<lparr> curr_start = (if e1 > max_d then s1 else 0), curr_end = e1,
               curr_duration = e1 - (if e1 > max_d then s1 else 0),
               segments = [], boundaries = [] \<rparr>"
  using assms
  by (simp add: segment_step_def starts_new_chunk_def initial_seg_state_def append_chunk_def
      Let_def)

text \<open>
  Claim C6 as stated fails in its first particular case. With the default bounds (22 and
  15 seconds, threshold 0.2), the segments from 0 to 20 and from 20.1 to 25 seconds are
  0.1 seconds apart, less than the threshold, and still give two chunks: extending the
  first chunk to 25 seconds would exceed \<open>max_duration\<close>.
\<close>

theorem merge_counterexample:
  "(201/10 :: real) - 20 < 1/5
   \<and> merge_timeline (\<lambda>a b. [0]) 30 22 15 (1/5) [(0, 20), (201/10, 25)]
       = ([[0], [0]], [(0, 20), (201/10, 25)])"
  by (simp add: merge_timeline_def segment_step_def starts_new_chunk_def append_chunk_def
      audiosegment_to_tensor_def initial_seg_state_def Let_def py_int_def)

text \<open>
  Claim C6, amended. For each segment of the timeline, clipped to the clip, a new chunk
  starts (after the current one has been appended) exactly when the current duration
  exceeds \<open>min_duration\<close> and the gap from the current end to the segment's start exceeds
  \<open>new_chunk_threshold\<close>, or when the current duration extended to the segment's end
  exceeds \<open>max_duration\<close>; otherwise the current chunk is extended to the segment's end.
  For a timeline of two segments inside the clip, where \<open>c0\<close> is the start of the chunk
  after the first segment (0, or the segment's start when its end already exceeds
  \<open>max_duration\<close>): a gap smaller than the threshold gives one chunk from \<open>c0\<close> to the end
  of the second segment, provided that chunk does not exceed \<open>max_duration\<close>; a gap larger
  than the threshold after more than \<open>min_duration\<close> gives two chunks. In both cases the
  slices of the clip are taken to be non-empty.
\<close>

theorem merge_rule:
  "(let start = max 0 (fst seg); end' = min len_s (snd seg);
        st' = segment_step slice len_s max_d min_d thr st seg
    in curr_end st' = end' \<and> curr_duration st' = end' - curr_start st'
       \<and> (if (curr_duration st > min_d \<and> start - curr_end st > thr)
               \<or> curr_duration st + (end' - curr_end st) > max_d
           then curr_start st' = start
                \<and> segments st' = segments (append_chunk slice st)
                \<and> boundaries st' = boundaries (append_chunk slice st)
           else curr_start st' = curr_start st
                \<and> segments st' = segments st \<and> boundaries st' = boundaries st))
   \<and> (\<forall>s1 e1 s2 e2 c0.
         0 \<le> s1 \<and> s1 < e1 \<and> e1 \<le> s2 \<and> s2 < e2 \<and> e2 \<le> len_s \<and> 0 \<le> min_d
         \<and> c0 = (if e1 > max_d then s1 else 0)
         \<and> s2 - e1 < thr \<and> e2 - c0 \<le> max_d
         \<and> slice (py_int (c0 * 1000)) (py_int (e2 * 1000)) \<noteq> []
         \<longrightarrow> snd (merge_timeline slice len_s max_d min_d thr [(s1, e1), (s2, e2)])
               = [(c0, e2)])
   \<and> (\<forall>s1 e1 s2 e2 c0.
         0 \<le> s1 \<and> s1 < e1 \<and> e1 \<le> s2 \<and> s2 < e2 \<and> e2 \<le> len_s \<and> 0 \<le> min_d
         \<and> c0 = (if e1 > max_d then s1 else 0)
         \<and> s2 - e1 > thr \<and> e1 - c0 > min_d
         \<and> slice (py_int (c0 * 1000)) (py_int (e1 * 1000)) \<noteq> []
         \<and> slice (py_int (s2 * 1000)) (py_int (e2 * 1000)) \<noteq> []
         \<longrightarrow> snd (merge_timeline slice len_s max_d min_d thr [(s1, e1), (s2, e2)])
               = [(c0, e1), (s2, e2)])"
proof (intro conjI allI impI)
  show "let start = max 0 (fst seg); end' = min len_s (snd seg);
        st' = segment_step slice len_s max_d min_d thr st seg
    in curr_end st' = end' \<and> curr_duration st' = end' - curr_start st'
       \<and> (if (curr_duration st > min_d \<and> start - curr_end st > thr)
               \<or> curr_duration st + (end' - curr_end st) > max_d
           then curr_start st' = start
                \<and> segments st' = segments (append_chunk slice st)
                \<and> boundaries st' = boundaries (append_chunk slice st)
           else curr_start st' = curr_start st
                \<and> segments st' = segments st \<and> boundaries st' = boundaries st)"
    by (simp add: segment_step_def starts_new_chunk_def Let_def)
next
  fix s1 e1 s2 e2 c0 :: real
  assume h: "0 \<le> s1 \<and> s1 < e1 \<and> e1 \<le> s2 \<and> s2 < e2 \<and> e2 \<le> len_s \<and> 0 \<le> min_d
         \<and> c0 = (if e1 > max_d then s1 else 0)
         \<and> s2 - e1 < thr \<and> e2 - c0 \<le> max_d
         \<and> slice (py_int (c0 * 1000)) (py_int (e2 * 1000)) \<noteq> []"
  then have p: "0 \<le> s1" "s1 < e1" "e1 \<le> s2" "s2 < e2" "e2 \<le> len_s" "0 \<le> min_d"
    and c0d: "c0 = (if e1 > max_d then s1 else 0)"
    and gap: "s2 - e1 < thr" and fits: "e2 - c0 \<le> max_d"
    and ne: "slice (py_int (c0 * 1000)) (py_int (e2 * 1000)) \<noteq> []"
    by blast+
  have f: "segment_step slice len_s max_d min_d thr initial_seg_state (s1, e1)
           = \<lparr> curr_start = c0, curr_end = e1, curr_duration = e1 - c0,
               segments = [], boundaries = [] \<rparr>"
    using first_segment [of s1 e1 len_s min_d slice max_d thr] p c0d by simp
  from c0d p have c0: "c0 \<le> s1" by (simp split: if_splits)
  with p have lt: "c0 < e2" by linarith
  have g: "segment_step slice len_s max_d min_d thr
             \<lparr> curr_start = c0, curr_end = e1, curr_duration = e1 - c0,
               segments = [], boundaries = [] \<rparr> (s2, e2)
           = \<lparr> curr_start = c0, curr_end = e2, curr_duration = e2 - c0,
               segments = [], boundaries = [] \<rparr>"
    using p gap fits by (simp add: segment_step_def starts_new_chunk_def Let_def)
  have run: "foldl (segment_step slice len_s max_d min_d thr) initial_seg_state
               [(s1, e1), (s2, e2)]
           = \<lparr> curr_start = c0, curr_end = e2, curr_duration = e2 - c0,
               segments = [], boundaries = [] \<rparr>"
    by (simp add: f g)
  show "snd (merge_timeline slice len_s max_d min_d thr [(s1, e1), (s2, e2)]) = [(c0, e2)]"
    unfolding merge_timeline_def run using ne lt
    by (simp add: append_chunk_def audiosegment_to_tensor_def Let_def)
next
  fix s1 e1 s2 e2 c0 :: real
  assume h: "0 \<le> s1 \<and> s1 < e1 \<and> e1 \<le> s2 \<and> s2 < e2 \<and> e2 \<le> len_s \<and> 0 \<le> min_d
         \<and> c0 = (if e1 > max_d then s1 else 0)
         \<and> s2 - e1 > thr \<and> e1 - c0 > min_d
         \<and> slice (py_int (c0 * 1000)) (py_int (e1 * 1000)) \<noteq> []
         \<and> slice (py_int (s2 * 1000)) (py_int (e2 * 1000)) \<noteq> []"
  then have p: "0 \<le> s1" "s1 < e1" "e1 \<le> s2" "s2 < e2" "e2 \<le> len_s" "0 \<le> min_d"
    and c0d: "c0 = (if e1 > max_d then s1 else 0)"
    and gap: "s2 - e1 > thr" and long: "e1 - c0 > min_d"
    and ne1: "slice (py_int (c0 * 1000)) (py_int (e1 * 1000)) \<noteq> []"
    and ne2: "slice (py_int (s2 * 1000)) (py_int (e2 * 1000)) \<noteq> []"
    by blast+
  have f: "segment_step slice len_s max_d min_d thr initial_seg_state (s1, e1)
           = \<lparr> curr_start = c0, curr_end = e1, curr_duration = e1 - c0,
               segments = [], boundaries = [] \<rparr>"
    using first_segment [of s1 e1 len_s min_d slice max_d thr] p c0d by simp
  from c0d p have c0: "c0 \<le> s1" by (simp split: if_splits)
  with p have lt: "c0 < e1" by linarith
  have g: "segment_step slice len_s max_d min_d thr
             \<lparr> curr_start = c0, curr_end = e1, curr_duration = e1 - c0,
               segments = [], boundaries = [] \<rparr> (s2, e2)
           = \<lparr> curr_start = s2, curr_end = e2, curr_duration = e2 - s2,
               segments = [audiosegment_to_tensor
                             (slice (py_int (c0 * 1000)) (py_int (e1 * 1000)))],
               boundaries = [(c0, e1)] \<rparr>"
    using p gap long ne1 lt
    by (simp add: segment_step_def starts_new_chunk_def append_chunk_def
        audiosegment_to_tensor_def Let_def)
  have run: "foldl (segment_step slice len_s max_d min_d thr) initial_seg_state
               [(s1, e1), (s2, e2)]
           = \<lparr> curr_start = s2, curr_end = e2, curr_duration = e2 - s2,
               segments = [audiosegment_to_tensor
                             (slice (py_int (c0 * 1000)) (py_int (e1 * 1000)))],
               boundaries = [(c0, e1)] \<rparr>"
    by (simp add: f g)
  show "snd (merge_timeline slice len_s max_d min_d thr [(s1, e1), (s2, e2)])
          = [(c0, e1), (s2, e2)]"
    unfolding merge_timeline_def run using ne2 p
    by (simp add: append_chunk_def audiosegment_to_tensor_def Let_def)
qed

theorem merge_rule_witness:
  "(0 \<le> (0::real) \<and> (0::real) < 5 \<and> (5::real) \<le> 51/10 \<and> (51/10::real) < 10 \<and> (10::real) \<le> 30
      \<and> (0::real) \<le> 15 \<and> (0::real) = (if (5::real) > 22 then 0 else 0)
      \<and> (51/10::real) - 5 < 1/5 \<and> (10::real) - 0 \<le> 22
      \<and> (\<lambda>a b. [0::real]) (py_int (0 * 1000)) (py_int (10 * 1000)) \<noteq> [])
   \<and> snd (merge_timeline (\<lambda>a b. [0]) 30 22 15 (1/5) [(0, 5), (51/10, 10)]) = [(0, 10)]
   \<and> (0 \<le> (0::real) \<and> (0::real) < 16 \<and> (16::real) \<le> 17 \<and> (17::real) < 20 \<and> (20::real) \<le> 30
      \<and> (0::real) \<le> 15 \<and> (0::real) = (if (16::real) > 22 then 0 else 0)
      \<and> (17::real) - 16 > 1/5 \<and> (16::real) - 0 > 15
      \<and> (\<lambda>a b. [0::real]) (py_int (0 * 1000)) (py_int (16 * 1000)) \<noteq> []
      \<and> (\<lambda>a b. [0::real]) (py_int (17 * 1000)) (py_int (20 * 1000)) \<noteq> [])
   \<and> snd (merge_timeline (\<lambda>a b. [0]) 30 22 15 (1/5) [(0, 16), (17, 20)]) = [(0, 16), (17, 20)]"
proof -
  have h1: "0 \<le> (0::real) \<and> (0::real) < 5 \<and> (5::real) \<le> 51/10 \<and> (51/10::real) < 10 \<and> (10::real) \<le> 30
      \<and> (0::real) \<le> 15 \<and> (0::real) = (if (5::real) > 22 then 0 else 0)
      \<and> (51/10::real) - 5 < 1/5 \<and> (10::real) - 0 \<le> 22
      \<and> (\<lambda>a b. [0::real]) (py_int (0 * 1000)) (py_int (10 * 1000)) \<noteq> []"
    by simp
  have h2: "0 \<le> (0::real) \<and> (0::real) < 16 \<and> (16::real) \<le> 17 \<and> (17::real) < 20 \<and> (20::real) \<le> 30
      \<and> (0::real) \<le> 15 \<and> (0::real) = (if (16::real) > 22 then 0 else 0)
      \<and> (17::real) - 16 > 1/5 \<and> (16::real) - 0 > 15
      \<and> (\<lambda>a b. [0::real]) (py_int (0 * 1000)) (py_int (16 * 1000)) \<noteq> []
      \<and> (\<lambda>a b. [0::real]) (py_int (17 * 1000)) (py_int (20 * 1000)) \<noteq> []"
    by simp
  note T = merge_rule [of "(0, 0)" 30 "\<lambda>a b. [0]" 22 15 "1/5" initial_seg_state]
  have a: "snd (merge_timeline (\<lambda>a b. [0]) 30 22 15 (1/5) [(0, 5), (51/10, 10)]) = [(0, 10)]"
    using T [THEN conjunct2, THEN conjunct1, rule_format, OF h1] .
  have b: "snd (merge_timeline (\<lambda>a b. [0]) 30 22 15 (1/5) [(0, 16), (17, 20)])
             = [(0, 16), (17, 20)]"
    using T [THEN conjunct2, THEN conjunct2, rule_format, OF h2] .
  from h1 h2 a b show ?thesis by blast
qed

lemma segment_audio_short_clip:
  assumes "tensor_numpy w t = None" and "audio_segment w t rate = None"
    and "audio_ms w t rate < 1000"
  shows "segment_audio w (TorchTensor t) rate max_d min_d thr device
           = Inl (ValueError ''Audio too short for segmentation'')"
  using assms by (simp add: segment_audio_def)

lemma segment_audio_output_needs_tensor:
  assumes "segment_audio w wav rate max_d min_d thr device = Inr out"
  shows "\<exists>t. wav = TorchTensor t \<and> 1000 \<le> audio_ms w t rate"
  using assms
  by (cases wav)
    (auto simp: segment_audio_def Let_def split: option.splits sum.splits if_splits)

text \<open>
  Claim C7. The claim asks for a type error whenever the argument is not a torch tensor,
  and \<open>segment_audio\<close> has the test and the \<open>TypeError\<close> for it. The code misses it for an
  argument without an attribute \<open>shape\<close>, such as a list of samples: the statement that
  prints \<open>wav_tensor.shape\<close> comes before the type test and raises \<open>AttributeError\<close>.
  An argument that is not a tensor but has a \<open>shape\<close>, such as an array, reaches the
  test and gets the \<open>TypeError\<close>.
\<close>

theorem segment_audio_list_input:
  "segment_audio w (OtherObject False) rate max_d min_d thr device = Inl AttributeError
   \<and> segment_audio w (OtherObject True) rate max_d min_d thr device
       = Inl (TypeError ''wav_tensor must be a torch.Tensor'')"
  by (simp add: segment_audio_def)

end
